theory Spec2Isabelle
  imports Main "HOL-Library.Word"
begin

unbundle bit_operations_syntax

section \<open>Go values, errors and panics\<close>

text \<open>
  A Go \<open>error\<close> is either nil or a value with a message; \<open>error option\<close> is the
  interface, \<open>None\<close> is nil. \<open>Error\<close> is the method that reads the message.
\<close>

datatype error = errorString string

fun Error :: "error \<Rightarrow> string" where
  "Error (errorString m) = m"

text \<open>
  \<open>any\<close> is a value of type \<open>interface{}\<close>, tagged with its dynamic type.
  \<open>VSort\<close> is the package's own \<open>Sort\<close> (\<open>type Sort []string\<close>), \<open>VStrings\<close> a plain
  \<open>[]string\<close>: a type assertion tells them apart. \<open>VInt\<close> is Go's \<open>int\<close>; the
  wrapper does no arithmetic on it, so it is read as an integer. \<open>VPtr\<close> is a pointer
  to a variable of the caller (the target a result is decoded into).
\<close>

datatype any =
    VNil
  | VBool bool
  | VInt int
  | VInt64 int
  | VString string
  | VStrings "string list"
  | VSort "string list"
  | VM "(string \<times> any) list"
  | VList "any list"
  | VPtr nat

text \<open>\<open>M\<close> is \<open>map[string]interface{}\<close>; indexing a key that is absent gives nil.\<close>

type_synonym M = "(string \<times> any) list"

definition index :: "M \<Rightarrow> string \<Rightarrow> any" where
  "index m k = (case map_of m k of None \<Rightarrow> VNil | Some v \<Rightarrow> v)"

text \<open>
  The map a method returns: Go tells a nil map from an empty one that was made
  with a literal.
\<close>

datatype gomap = MapNil | MapOf "string \<Rightarrow> any option"

text \<open>
  A panic carries a value; a runtime panic (a nil dereference) carries a value that
  is an \<open>error\<close>. A call either returns or panics.
\<close>

datatype panic = Panic_error error | Panic_value any

datatype 'a outcome = Returns 'a | Panics panic

definition nil_dereference :: panic where
  "nil_dereference =
     Panic_error (errorString ''runtime error: invalid memory address or nil pointer dereference'')"

text \<open>\<open>r.(error)\<close> on a recovered panic value: the error, or no error value at all.\<close>

fun as_error :: "panic \<Rightarrow> error option" where
  "as_error (Panic_error e) = Some e"
| "as_error (Panic_value v) = None"

text \<open>What a function with a deferred \<open>recover()\<close> returns: its zero values after a panic.\<close>

fun recovered :: "'a \<Rightarrow> 'a outcome \<Rightarrow> 'a outcome" where
  "recovered zero (Panics p) = Returns zero"
| "recovered zero (Returns v) = Returns v"

section \<open>The driver, as the wrapper sees it\<close>

text \<open>
  A session is the one \<open>mgo.Dial\<close> gave, or a copy of a session. A collection is
  bound to the session it was reached through.
\<close>

datatype session = Session nat | Copy session

record collection =
  coll_session :: session
  coll_db :: string
  coll_name :: string

definition C :: "session \<Rightarrow> string \<Rightarrow> string \<Rightarrow> collection" where
  "C s database name = \<lparr>coll_session = s, coll_db = database, coll_name = name\<rparr>"

text \<open>
  A query under construction. \<open>Find\<close> starts it; \<open>Select\<close>, \<open>Limit\<close> and \<open>Skip\<close>
  of the driver each record their argument in it (\<open>None\<close>: never called), and so
  does \<open>Sort\<close> (below, after the driver) when it accepts its fields.
\<close>

record query =
  q_coll :: collection
  q_query :: M
  q_fields :: "M option"
  q_sort :: "string list option"
  q_limit :: "int option"
  q_skip :: "int option"

definition Find :: "collection \<Rightarrow> M \<Rightarrow> query" where
  "Find conn q =
     \<lparr>q_coll = conn, q_query = q, q_fields = None, q_sort = None, q_limit = None, q_skip = None\<rparr>"

definition Select :: "query \<Rightarrow> M \<Rightarrow> query" where
  "Select q flds = q\<lparr>q_fields := Some flds\<rparr>"

definition Limit :: "query \<Rightarrow> int \<Rightarrow> query" where
  "Limit q n = q\<lparr>q_limit := Some n\<rparr>"

definition Skip :: "query \<Rightarrow> int \<Rightarrow> query" where
  "Skip q n = q\<lparr>q_skip := Some n\<rparr>"

text \<open>\<open>mgo.Change\<close> and \<open>mgo.ChangeInfo\<close>.\<close>

record Change =
  ch_Update :: "M option"
  ch_Upsert :: bool
  ch_Remove :: bool
  ch_ReturnNew :: bool

record ChangeInfo =
  Updated :: int
  Removed :: int
  Matched :: int
  UpsertedId :: any

text \<open>The driver calls that reach the server, one constructor for each the wrapper makes.\<close>

datatype op =
    Query_One query any
  | Query_All query any
  | Query_Count query
  | Query_Apply query Change any
  | Collection_Insert collection "any list"
  | Collection_Update collection M M
  | Collection_UpdateAll collection M M
  | Collection_Upsert collection M M
  | Collection_Remove collection M
  | Collection_RemoveAll collection M
  | Pipe_One collection "M list" any
  | Pipe_All collection "M list" any

text \<open>What a run of a function did to the driver, in order.\<close>

datatype event =
    EDial string
  | ESetSocketTimeout session int
  | ECopy session
  | EClose session
  | EPing session
  | ECall op

text \<open>\<open>time.Duration\<close> counts nanoseconds.\<close>

definition Hour :: int where
  "Hour = 3600 * 1000000000"

record URL =
  Host :: string

text \<open>
  The libraries are a parameter: what each call answers is theirs to decide. A call
  that returns a pair \<open>(pointer, error)\<close> can answer any of the four combinations,
  and a call can panic. \<open>call_err\<close> answers the calls whose Go result is an error,
  \<open>call_count\<close> those that give \<open>(int, error)\<close>, \<open>call_info\<close> those that give
  \<open>(*ChangeInfo, error)\<close>. \<open>Sort_panic\<close> is the panic with which \<open>Query.Sort\<close>
  refuses a list of fields, \<open>None\<close> when it takes them.
\<close>

record driver =
  url_Parse :: "string \<Rightarrow> URL option \<times> error option"
  mgo_Dial :: "string \<Rightarrow> (session option \<times> error option) outcome"
  Session_Ping :: "session \<Rightarrow> error option outcome"
  Sort_panic :: "string list \<Rightarrow> panic option"
  call_err :: "op \<Rightarrow> error option outcome"
  call_count :: "op \<Rightarrow> (int \<times> error option) outcome"
  call_info :: "op \<Rightarrow> (ChangeInfo option \<times> error option) outcome"

text \<open>
  \<open>Query.Sort\<close> of the driver: it checks its fields before it records them, and
  panics in the middle of the query's construction when it refuses them.
\<close>

definition Sort :: "driver \<Rightarrow> query \<Rightarrow> string list \<Rightarrow> query outcome" where
  "Sort drv q flds =
     (case Sort_panic drv flds of
        Some p \<Rightarrow> Panics p
      | None \<Rightarrow> Returns (q\<lparr>q_sort := Some flds\<rparr>))"

text \<open>\<open>fmt.Errorf("host: %s error: %s", host, err.Error())\<close>.\<close>

definition Errorf_host :: "string \<Rightarrow> error \<Rightarrow> error" where
  "Errorf_host h e = errorString (''host: '' @ h @ '' error: '' @ Error e)"

section \<open>The per-client variant\<close>

text \<open>
  The variant whose handle carries its own sticky error. The receiver is a pointer,
  so every method gives back the handle as it leaves it, next to what it returns
  and what it did to the driver.
\<close>

record Client =
  host :: string
  session :: "session option"
  connErr :: "error option"

type_synonym 'a run_c = "'a outcome \<times> Client \<times> event list"

text \<open>
  \<open>Conn\<close> drops the error of \<open>url.Parse\<close> and reads \<open>u.Host\<close> afterwards, on
  either path; \<open>u\<close> is nil when the parse failed.
\<close>

definition Conn_c :: "driver \<Rightarrow> string \<Rightarrow> Client outcome \<times> event list" where
  "Conn_c drv urlAddr =
     (let cli = \<lparr>host = [], session = None, connErr = None\<rparr>;
          u = fst (url_Parse drv urlAddr)
      in case mgo_Dial drv urlAddr of
           Panics p \<Rightarrow> (Panics p, [EDial urlAddr])
         | Returns (sess, err) \<Rightarrow>
             (case err of
                Some e \<Rightarrow>
                  (case u of
                     None \<Rightarrow> (Panics nil_dereference, [EDial urlAddr])
                   | Some url \<Rightarrow>
                       (Returns (cli\<lparr>connErr := Some (Errorf_host (Host url) e)\<rparr>),
                        [EDial urlAddr]))
              | None \<Rightarrow>
                  (case sess of
                     None \<Rightarrow> (Panics nil_dereference, [EDial urlAddr])
                   | Some s \<Rightarrow>
                       (case u of
                          None \<Rightarrow>
                            (Panics nil_dereference,
                             [EDial urlAddr, ESetSocketTimeout s (24 * Hour)])
                        | Some url \<Rightarrow>
                            (Returns (cli\<lparr>host := Host url, session := Some s\<rparr>),
                             [EDial urlAddr, ESetSocketTimeout s (24 * Hour)])))))"

definition Ping_c :: "driver \<Rightarrow> Client \<Rightarrow> error option run_c" where
  "Ping_c drv c =
     (case connErr c of
        Some e \<Rightarrow> (Returns (Some e), c, [])
      | None \<Rightarrow>
          (case session c of
             None \<Rightarrow> (Panics nil_dereference, c, [])
           | Some s \<Rightarrow>
               (let sess = Copy s
                in case Session_Ping drv sess of
                     Panics p \<Rightarrow> (Panics p, c, [ECopy s, EPing sess, EClose sess])
                   | Returns None \<Rightarrow> (Returns (connErr c), c, [ECopy s, EPing sess, EClose sess])
                   | Returns (Some err) \<Rightarrow>
                       (let c' = c\<lparr>connErr := Some (Errorf_host (host c) err)\<rparr>
                        in (Returns (connErr c'), c', [ECopy s, EPing sess, EClose sess])))))"

definition GetRow_c :: "driver \<Rightarrow> Client \<Rightarrow> string \<Rightarrow> string \<Rightarrow> M \<Rightarrow> any \<Rightarrow> error option run_c" where
  "GetRow_c drv c database collection query result =
     (case connErr c of
        Some e \<Rightarrow> (Returns (Some e), c, [])
      | None \<Rightarrow>
          (case session c of
             None \<Rightarrow> (Panics nil_dereference, c, [])
           | Some s \<Rightarrow>
               (let sess = Copy s;
                    conn = C sess database collection;
                    call = Query_One (Find conn query) result
                in (call_err drv call, c, [ECopy s, ECall call, EClose sess]))))"

text \<open>
  The three option lookups of \<open>GetResult\<close>. \<open>options[k] != ""\<close> compares two
  interface values: it is false only for the string \<open>""\<close> itself. \<open>find.Sort\<close> can
  panic; the deferred \<open>Close\<close> then runs and the panic leaves \<open>GetResult\<close>, before
  \<open>Limit\<close>, \<open>Skip\<close> and \<open>All\<close> are reached.
\<close>

definition apply_Sort :: "driver \<Rightarrow> M \<Rightarrow> query \<Rightarrow> query outcome" where
  "apply_Sort drv options q =
     (if index options ''Sort'' \<noteq> VString []
      then (case index options ''Sort'' of VSort flds \<Rightarrow> Sort drv q flds | _ \<Rightarrow> Returns q)
      else Returns q)"

definition apply_Limit :: "M \<Rightarrow> query \<Rightarrow> query" where
  "apply_Limit options q =
     (if index options ''Limit'' \<noteq> VString []
      then (case index options ''Limit'' of VInt limit \<Rightarrow> Limit q limit | _ \<Rightarrow> q)
      else q)"

definition apply_Skip :: "M \<Rightarrow> query \<Rightarrow> query" where
  "apply_Skip options q =
     (if index options ''Skip'' \<noteq> VString []
      then (case index options ''Skip'' of VInt skip \<Rightarrow> Skip q skip | _ \<Rightarrow> q)
      else q)"

definition GetResult_c ::
  "driver \<Rightarrow> Client \<Rightarrow> string \<Rightarrow> string \<Rightarrow> M \<Rightarrow> M \<Rightarrow> M \<Rightarrow> any \<Rightarrow> error option run_c" where
  "GetResult_c drv c database collection query flds options result =
     (case connErr c of
        Some e \<Rightarrow> (Returns (Some e), c, [])
      | None \<Rightarrow>
          (case session c of
             None \<Rightarrow> (Panics nil_dereference, c, [])
           | Some s \<Rightarrow>
               (let sess = Copy s;
                    conn = C sess database collection;
                    find0 = Select (Find conn query) flds
                in case apply_Sort drv options find0 of
                     Panics p \<Rightarrow> (Panics p, c, [ECopy s, EClose sess])
                   | Returns find1 \<Rightarrow>
                       (let find2 = apply_Limit options find1;
                            find3 = apply_Skip options find2;
                            call = Query_All find3 result
                        in (call_err drv call, c, [ECopy s, ECall call, EClose sess])))))"

definition GetCount_c :: "driver \<Rightarrow> Client \<Rightarrow> string \<Rightarrow> string \<Rightarrow> M \<Rightarrow> (int \<times> error option) run_c" where
  "GetCount_c drv c database collection query =
     (case connErr c of
        Some e \<Rightarrow> (Returns (0, Some e), c, [])
      | None \<Rightarrow>
          (case session c of
             None \<Rightarrow> (Panics nil_dereference, c, [])
           | Some s \<Rightarrow>
               (let sess = Copy s;
                    conn = C sess database collection;
                    call = Query_Count (Find conn query)
                in (call_count drv call, c, [ECopy s, ECall call, EClose sess]))))"

definition Insert_c :: "driver \<Rightarrow> Client \<Rightarrow> string \<Rightarrow> string \<Rightarrow> any list \<Rightarrow> error option run_c" where
  "Insert_c drv c database collection docs =
     (case connErr c of
        Some e \<Rightarrow> (Returns (Some e), c, [])
      | None \<Rightarrow>
          (case session c of
             None \<Rightarrow> (Panics nil_dereference, c, [])
           | Some s \<Rightarrow>
               (let sess = Copy s;
                    conn = C sess database collection;
                    call = Collection_Insert conn docs
                in (call_err drv call, c, [ECopy s, ECall call, EClose sess]))))"

definition Update_c :: "driver \<Rightarrow> Client \<Rightarrow> string \<Rightarrow> string \<Rightarrow> M \<Rightarrow> M \<Rightarrow> error option run_c" where
  "Update_c drv c database collection selector update =
     (case connErr c of
        Some e \<Rightarrow> (Returns (Some e), c, [])
      | None \<Rightarrow>
          (case session c of
             None \<Rightarrow> (Panics nil_dereference, c, [])
           | Some s \<Rightarrow>
               (let sess = Copy s;
                    conn = C sess database collection;
                    call = Collection_Update conn selector update
                in (call_err drv call, c, [ECopy s, ECall call, EClose sess]))))"

text \<open>
  The end of \<open>UpdateAll\<close> and \<open>Upsert\<close>: nil and the error when the driver gave
  one, the three fields of \<open>info\<close> otherwise. \<open>info\<close> is a pointer.
\<close>

definition info_map :: "ChangeInfo \<Rightarrow> gomap" where
  "info_map info =
     MapOf [''Matched'' \<mapsto> VInt (Matched info), ''Updated'' \<mapsto> VInt (Updated info),
            ''UpsertedId'' \<mapsto> UpsertedId info]"

fun info_result :: "(ChangeInfo option \<times> error option) outcome \<Rightarrow> (gomap \<times> error option) outcome" where
  "info_result (Panics p) = Panics p"
| "info_result (Returns (info, Some err)) = Returns (MapNil, Some err)"
| "info_result (Returns (None, None)) = Panics nil_dereference"
| "info_result (Returns (Some info, None)) = Returns (info_map info, None)"

text \<open>
  The end of \<open>RemoveAll\<close>, \<open>FindAndModify\<close> and \<open>FindAndRemove\<close>: the counter
  starts at zero and is read from \<open>info\<close> only when the error is nil.
\<close>

fun count_result ::
  "(ChangeInfo \<Rightarrow> int) \<Rightarrow> (ChangeInfo option \<times> error option) outcome \<Rightarrow> (int \<times> error option) outcome" where
  "count_result field (Panics p) = Panics p"
| "count_result field (Returns (info, Some err)) = Returns (0, Some err)"
| "count_result field (Returns (None, None)) = Panics nil_dereference"
| "count_result field (Returns (Some info, None)) = Returns (field info, None)"

definition UpdateAll_c :: "driver \<Rightarrow> Client \<Rightarrow> string \<Rightarrow> string \<Rightarrow> M \<Rightarrow> M \<Rightarrow> (gomap \<times> error option) run_c" where
  "UpdateAll_c drv c database collection selector update =
     (case connErr c of
        Some e \<Rightarrow> (Returns (MapOf Map.empty, Some e), c, [])
      | None \<Rightarrow>
          (case session c of
             None \<Rightarrow> (Panics nil_dereference, c, [])
           | Some s \<Rightarrow>
               (let sess = Copy s;
                    conn = C sess database collection;
                    call = Collection_UpdateAll conn selector update
                in (info_result (call_info drv call), c, [ECopy s, ECall call, EClose sess]))))"

definition Upsert_c :: "driver \<Rightarrow> Client \<Rightarrow> string \<Rightarrow> string \<Rightarrow> M \<Rightarrow> M \<Rightarrow> (gomap \<times> error option) run_c" where
  "Upsert_c drv c database collection selector update =
     (case connErr c of
        Some e \<Rightarrow> (Returns (MapOf Map.empty, Some e), c, [])
      | None \<Rightarrow>
          (case session c of
             None \<Rightarrow> (Panics nil_dereference, c, [])
           | Some s \<Rightarrow>
               (let sess = Copy s;
                    conn = C sess database collection;
                    call = Collection_Upsert conn selector update
                in (info_result (call_info drv call), c, [ECopy s, ECall call, EClose sess]))))"

definition Remove_c :: "driver \<Rightarrow> Client \<Rightarrow> string \<Rightarrow> string \<Rightarrow> M \<Rightarrow> error option run_c" where
  "Remove_c drv c database collection selector =
     (case connErr c of
        Some e \<Rightarrow> (Returns (Some e), c, [])
      | None \<Rightarrow>
          (case session c of
             None \<Rightarrow> (Panics nil_dereference, c, [])
           | Some s \<Rightarrow>
               (let sess = Copy s;
                    conn = C sess database collection;
                    call = Collection_Remove conn selector
                in (call_err drv call, c, [ECopy s, ECall call, EClose sess]))))"

definition RemoveAll_c :: "driver \<Rightarrow> Client \<Rightarrow> string \<Rightarrow> string \<Rightarrow> M \<Rightarrow> (int \<times> error option) run_c" where
  "RemoveAll_c drv c database collection selector =
     (case connErr c of
        Some e \<Rightarrow> (Returns (0, Some e), c, [])
      | None \<Rightarrow>
          (case session c of
             None \<Rightarrow> (Panics nil_dereference, c, [])
           | Some s \<Rightarrow>
               (let sess = Copy s;
                    conn = C sess database collection;
                    call = Collection_RemoveAll conn selector
                in (count_result Removed (call_info drv call), c, [ECopy s, ECall call, EClose sess]))))"

definition FindAndModify_c ::
  "driver \<Rightarrow> Client \<Rightarrow> string \<Rightarrow> string \<Rightarrow> M \<Rightarrow> M \<Rightarrow> bool \<Rightarrow> any \<Rightarrow> (int \<times> error option) run_c" where
  "FindAndModify_c drv c database collection selector update upsert result =
     (case connErr c of
        Some e \<Rightarrow> (Returns (0, Some e), c, [])
      | None \<Rightarrow>
          (case session c of
             None \<Rightarrow> (Panics nil_dereference, c, [])
           | Some s \<Rightarrow>
               (let sess = Copy s;
                    change = \<lparr>ch_Update = Some update, ch_Upsert = upsert, ch_Remove = False,
                              ch_ReturnNew = True\<rparr>;
                    conn = C sess database collection;
                    call = Query_Apply (Find conn selector) change result
                in (count_result Updated (call_info drv call), c,
                    [ECopy s, ECall call, EClose sess]))))"

definition FindAndRemove_c ::
  "driver \<Rightarrow> Client \<Rightarrow> string \<Rightarrow> string \<Rightarrow> M \<Rightarrow> any \<Rightarrow> (int \<times> error option) run_c" where
  "FindAndRemove_c drv c database collection selector result =
     (case connErr c of
        Some e \<Rightarrow> (Returns (0, Some e), c, [])
      | None \<Rightarrow>
          (case session c of
             None \<Rightarrow> (Panics nil_dereference, c, [])
           | Some s \<Rightarrow>
               (let sess = Copy s;
                    change = \<lparr>ch_Update = None, ch_Upsert = False, ch_Remove = True,
                              ch_ReturnNew = False\<rparr>;
                    conn = C sess database collection;
                    call = Query_Apply (Find conn selector) change result
                in (count_result Removed (call_info drv call), c,
                    [ECopy s, ECall call, EClose sess]))))"

definition GetPipeRow_c :: "driver \<Rightarrow> Client \<Rightarrow> string \<Rightarrow> string \<Rightarrow> M list \<Rightarrow> any \<Rightarrow> error option run_c" where
  "GetPipeRow_c drv c database collection pipeline result =
     (case connErr c of
        Some e \<Rightarrow> (Returns (Some e), c, [])
      | None \<Rightarrow>
          (case session c of
             None \<Rightarrow> (Panics nil_dereference, c, [])
           | Some s \<Rightarrow>
               (let sess = Copy s;
                    conn = C sess database collection;
                    call = Pipe_One conn pipeline result
                in (call_err drv call, c, [ECopy s, ECall call, EClose sess]))))"

definition GetPipeResult_c :: "driver \<Rightarrow> Client \<Rightarrow> string \<Rightarrow> string \<Rightarrow> M list \<Rightarrow> any \<Rightarrow> error option run_c" where
  "GetPipeResult_c drv c database collection pipeline result =
     (case connErr c of
        Some e \<Rightarrow> (Returns (Some e), c, [])
      | None \<Rightarrow>
          (case session c of
             None \<Rightarrow> (Panics nil_dereference, c, [])
           | Some s \<Rightarrow>
               (let sess = Copy s;
                    conn = C sess database collection;
                    call = Pipe_All conn pipeline result
                in (call_err drv call, c, [ECopy s, ECall call, EClose sess]))))"

section \<open>The global-session variant\<close>

text \<open>
  The variant of \<open>mongo.go\<close>: the sticky error is a variable of the package, and a
  handle is a pointer that \<open>Conn\<close> leaves nil when it fails. Reading \<open>c.session\<close>
  through a nil handle, or copying a nil session, is a nil dereference.
\<close>

record globals =
  connErr_g :: "error option"

record Client_g =
  session_g :: "session option"

type_synonym 'a run_g = "'a outcome \<times> globals \<times> event list"

definition session_of :: "Client_g option \<Rightarrow> session option" where
  "session_of c = (case c of None \<Rightarrow> None | Some cl \<Rightarrow> session_g cl)"

definition type_assertion :: panic where
  "type_assertion = Panic_error (errorString ''interface conversion: interface {} is not error'')"

text \<open>
  The deferred function of \<open>Conn\<close>: it recovers the panic and stores \<open>r.(error)\<close>;
  \<open>Conn\<close> then returns its zero value, a nil handle.
\<close>

definition recover_Conn :: "globals \<Rightarrow> panic \<Rightarrow> event list \<Rightarrow> Client_g option run_g" where
  "recover_Conn g r evs =
     (case as_error r of
        Some e \<Rightarrow> (Returns None, g\<lparr>connErr_g := Some e\<rparr>, evs)
      | None \<Rightarrow> (Panics type_assertion, g, evs))"

definition Conn_g :: "driver \<Rightarrow> globals \<Rightarrow> string \<Rightarrow> Client_g option run_g" where
  "Conn_g drv g url =
     (case mgo_Dial drv url of
        Panics p \<Rightarrow> recover_Conn g p [EDial url]
      | Returns (sess, err) \<Rightarrow>
          (case err of
             Some e \<Rightarrow> recover_Conn g (Panic_error e) [EDial url]
           | None \<Rightarrow>
               (let g' = g\<lparr>connErr_g := None\<rparr>
                in case sess of
                     None \<Rightarrow> recover_Conn g' nil_dereference [EDial url]
                   | Some s \<Rightarrow>
                       (Returns (Some \<lparr>session_g = Some s\<rparr>), g',
                        [EDial url, ESetSocketTimeout s (24 * Hour)]))))"

definition Ping_g :: "globals \<Rightarrow> error option run_g" where
  "Ping_g g = (Returns (connErr_g g), g, [])"

definition GetRow_g ::
  "driver \<Rightarrow> globals \<Rightarrow> Client_g option \<Rightarrow> string \<Rightarrow> string \<Rightarrow> M \<Rightarrow> any \<Rightarrow> error option run_g" where
  "GetRow_g drv g c database collection query result =
     (case connErr_g g of
        Some e \<Rightarrow> (Returns (Some e), g, [])
      | None \<Rightarrow>
          (case session_of c of
             None \<Rightarrow> (Panics nil_dereference, g, [])
           | Some s \<Rightarrow>
               (let sess = Copy s;
                    conn = C sess database collection;
                    call = Query_One (Find conn query) result
                in (call_err drv call, g, [ECopy s, ECall call, EClose sess]))))"

definition GetResult_g ::
  "driver \<Rightarrow> globals \<Rightarrow> Client_g option \<Rightarrow> string \<Rightarrow> string \<Rightarrow> M \<Rightarrow> M \<Rightarrow> M \<Rightarrow> any \<Rightarrow> error option run_g" where
  "GetResult_g drv g c database collection query flds options result =
     (case connErr_g g of
        Some e \<Rightarrow> (Returns (Some e), g, [])
      | None \<Rightarrow>
          (case session_of c of
             None \<Rightarrow> (Panics nil_dereference, g, [])
           | Some s \<Rightarrow>
               (let sess = Copy s;
                    conn = C sess database collection;
                    find0 = Select (Find conn query) flds
                in case apply_Sort drv options find0 of
                     Panics p \<Rightarrow> (Panics p, g, [ECopy s, EClose sess])
                   | Returns find1 \<Rightarrow>
                       (let find2 = apply_Limit options find1;
                            find3 = apply_Skip options find2;
                            call = Query_All find3 result
                        in (call_err drv call, g, [ECopy s, ECall call, EClose sess])))))"

definition GetCount_g ::
  "driver \<Rightarrow> globals \<Rightarrow> Client_g option \<Rightarrow> string \<Rightarrow> string \<Rightarrow> M \<Rightarrow> (int \<times> error option) run_g" where
  "GetCount_g drv g c database collection query =
     (case connErr_g g of
        Some e \<Rightarrow> (Returns (0, Some e), g, [])
      | None \<Rightarrow>
          (case session_of c of
             None \<Rightarrow> (Panics nil_dereference, g, [])
           | Some s \<Rightarrow>
               (let sess = Copy s;
                    conn = C sess database collection;
                    call = Query_Count (Find conn query)
                in (call_count drv call, g, [ECopy s, ECall call, EClose sess]))))"

definition Insert_g ::
  "driver \<Rightarrow> globals \<Rightarrow> Client_g option \<Rightarrow> string \<Rightarrow> string \<Rightarrow> any list \<Rightarrow> error option run_g" where
  "Insert_g drv g c database collection docs =
     (case connErr_g g of
        Some e \<Rightarrow> (Returns (Some e), g, [])
      | None \<Rightarrow>
          (case session_of c of
             None \<Rightarrow> (Panics nil_dereference, g, [])
           | Some s \<Rightarrow>
               (let sess = Copy s;
                    conn = C sess database collection;
                    call = Collection_Insert conn docs
                in (call_err drv call, g, [ECopy s, ECall call, EClose sess]))))"

definition Update_g ::
  "driver \<Rightarrow> globals \<Rightarrow> Client_g option \<Rightarrow> string \<Rightarrow> string \<Rightarrow> M \<Rightarrow> M \<Rightarrow> error option run_g" where
  "Update_g drv g c database collection selector update =
     (case connErr_g g of
        Some e \<Rightarrow> (Returns (Some e), g, [])
      | None \<Rightarrow>
          (case session_of c of
             None \<Rightarrow> (Panics nil_dereference, g, [])
           | Some s \<Rightarrow>
               (let sess = Copy s;
                    conn = C sess database collection;
                    call = Collection_Update conn selector update
                in (call_err drv call, g, [ECopy s, ECall call, EClose sess]))))"

definition UpdateAll_g ::
  "driver \<Rightarrow> globals \<Rightarrow> Client_g option \<Rightarrow> string \<Rightarrow> string \<Rightarrow> M \<Rightarrow> M \<Rightarrow> (gomap \<times> error option) run_g" where
  "UpdateAll_g drv g c database collection selector update =
     (case connErr_g g of
        Some e \<Rightarrow> (Returns (MapOf Map.empty, Some e), g, [])
      | None \<Rightarrow>
          (case session_of c of
             None \<Rightarrow> (Panics nil_dereference, g, [])
           | Some s \<Rightarrow>
               (let sess = Copy s;
                    conn = C sess database collection;
                    call = Collection_UpdateAll conn selector update
                in (info_result (call_info drv call), g, [ECopy s, ECall call, EClose sess]))))"

definition Upsert_g ::
  "driver \<Rightarrow> globals \<Rightarrow> Client_g option \<Rightarrow> string \<Rightarrow> string \<Rightarrow> M \<Rightarrow> M \<Rightarrow> (gomap \<times> error option) run_g" where
  "Upsert_g drv g c database collection selector update =
     (case connErr_g g of
        Some e \<Rightarrow> (Returns (MapOf Map.empty, Some e), g, [])
      | None \<Rightarrow>
          (case session_of c of
             None \<Rightarrow> (Panics nil_dereference, g, [])
           | Some s \<Rightarrow>
               (let sess = Copy s;
                    conn = C sess database collection;
                    call = Collection_Upsert conn selector update
                in (info_result (call_info drv call), g, [ECopy s, ECall call, EClose sess]))))"

definition Remove_g ::
  "driver \<Rightarrow> globals \<Rightarrow> Client_g option \<Rightarrow> string \<Rightarrow> string \<Rightarrow> M \<Rightarrow> error option run_g" where
  "Remove_g drv g c database collection selector =
     (case connErr_g g of
        Some e \<Rightarrow> (Returns (Some e), g, [])
      | None \<Rightarrow>
          (case session_of c of
             None \<Rightarrow> (Panics nil_dereference, g, [])
           | Some s \<Rightarrow>
               (let sess = Copy s;
                    conn = C sess database collection;
                    call = Collection_Remove conn selector
                in (call_err drv call, g, [ECopy s, ECall call, EClose sess]))))"

definition RemoveAll_g ::
  "driver \<Rightarrow> globals \<Rightarrow> Client_g option \<Rightarrow> string \<Rightarrow> string \<Rightarrow> M \<Rightarrow> (int \<times> error option) run_g" where
  "RemoveAll_g drv g c database collection selector =
     (case connErr_g g of
        Some e \<Rightarrow> (Returns (0, Some e), g, [])
      | None \<Rightarrow>
          (case session_of c of
             None \<Rightarrow> (Panics nil_dereference, g, [])
           | Some s \<Rightarrow>
               (let sess = Copy s;
                    conn = C sess database collection;
                    call = Collection_RemoveAll conn selector
                in (count_result Removed (call_info drv call), g, [ECopy s, ECall call, EClose sess]))))"

text \<open>
  The last four methods of this variant defer a function that recovers before it
  closes the copy: a panic raised after the copy was made ends as the zero values.
\<close>

definition FindAndModify_g ::
  "driver \<Rightarrow> globals \<Rightarrow> Client_g option \<Rightarrow> string \<Rightarrow> string \<Rightarrow> M \<Rightarrow> M \<Rightarrow> bool \<Rightarrow> any \<Rightarrow>
     (int \<times> error option) run_g" where
  "FindAndModify_g drv g c database collection selector update upsert result =
     (case connErr_g g of
        Some e \<Rightarrow> (Returns (0, Some e), g, [])
      | None \<Rightarrow>
          (case session_of c of
             None \<Rightarrow> (Panics nil_dereference, g, [])
           | Some s \<Rightarrow>
               (let sess = Copy s;
                    change = \<lparr>ch_Update = Some update, ch_Upsert = upsert, ch_Remove = False,
                              ch_ReturnNew = True\<rparr>;
                    conn = C sess database collection;
                    call = Query_Apply (Find conn selector) change result
                in (recovered (0, None) (count_result Updated (call_info drv call)), g,
                    [ECopy s, ECall call, EClose sess]))))"

definition FindAndRemove_g ::
  "driver \<Rightarrow> globals \<Rightarrow> Client_g option \<Rightarrow> string \<Rightarrow> string \<Rightarrow> M \<Rightarrow> any \<Rightarrow>
     (int \<times> error option) run_g" where
  "FindAndRemove_g drv g c database collection selector result =
     (case connErr_g g of
        Some e \<Rightarrow> (Returns (0, Some e), g, [])
      | None \<Rightarrow>
          (case session_of c of
             None \<Rightarrow> (Panics nil_dereference, g, [])
           | Some s \<Rightarrow>
               (let sess = Copy s;
                    change = \<lparr>ch_Update = None, ch_Upsert = False, ch_Remove = True,
                              ch_ReturnNew = False\<rparr>;
                    conn = C sess database collection;
                    call = Query_Apply (Find conn selector) change result
                in (recovered (0, None) (count_result Removed (call_info drv call)), g,
                    [ECopy s, ECall call, EClose sess]))))"

definition GetPipeRow_g ::
  "driver \<Rightarrow> globals \<Rightarrow> Client_g option \<Rightarrow> string \<Rightarrow> string \<Rightarrow> M list \<Rightarrow> any \<Rightarrow> error option run_g" where
  "GetPipeRow_g drv g c database collection pipeline result =
     (case connErr_g g of
        Some e \<Rightarrow> (Returns (Some e), g, [])
      | None \<Rightarrow>
          (case session_of c of
             None \<Rightarrow> (Panics nil_dereference, g, [])
           | Some s \<Rightarrow>
               (let sess = Copy s;
                    conn = C sess database collection;
                    call = Pipe_One conn pipeline result
                in (recovered None (call_err drv call), g, [ECopy s, ECall call, EClose sess]))))"

definition GetPipeResult_g ::
  "driver \<Rightarrow> globals \<Rightarrow> Client_g option \<Rightarrow> string \<Rightarrow> string \<Rightarrow> M list \<Rightarrow> any \<Rightarrow> error option run_g" where
  "GetPipeResult_g drv g c database collection pipeline result =
     (case connErr_g g of
        Some e \<Rightarrow> (Returns (Some e), g, [])
      | None \<Rightarrow>
          (case session_of c of
             None \<Rightarrow> (Panics nil_dereference, g, [])
           | Some s \<Rightarrow>
               (let sess = Copy s;
                    conn = C sess database collection;
                    call = Pipe_All conn pipeline result
                in (recovered None (call_err drv call), g, [ECopy s, ECall call, EClose sess]))))"

section \<open>The facade as one surface\<close>

text \<open>
  A call of one of the thirteen facade methods with its arguments, and the three
  shapes a facade method returns: an error, a count and an error, a map and an error.
\<close>

datatype facade_call =
    Call_GetRow string string M any
  | Call_GetResult string string M M M any
  | Call_GetCount string string M
  | Call_Insert string string "any list"
  | Call_Update string string M M
  | Call_UpdateAll string string M M
  | Call_Upsert string string M M
  | Call_Remove string string M
  | Call_RemoveAll string string M
  | Call_FindAndModify string string M M bool any
  | Call_FindAndRemove string string M any
  | Call_GetPipeRow string string "M list" any
  | Call_GetPipeResult string string "M list" any

datatype retval =
    Ret_error "error option"
  | Ret_count int "error option"
  | Ret_map gomap "error option"

fun ret_error :: "retval \<Rightarrow> error option" where
  "ret_error (Ret_error e) = e"
| "ret_error (Ret_count n e) = e"
| "ret_error (Ret_map m e) = e"

definition as_ret :: "('a \<Rightarrow> retval) \<Rightarrow> 'a outcome \<times> 's \<times> event list \<Rightarrow> retval outcome \<times> 's \<times> event list" where
  "as_ret f r = (map_outcome f (fst r), snd r)"

fun invoke_c :: "driver \<Rightarrow> Client \<Rightarrow> facade_call \<Rightarrow> retval outcome \<times> Client \<times> event list" where
  "invoke_c drv c (Call_GetRow d k q r) = as_ret Ret_error (GetRow_c drv c d k q r)"
| "invoke_c drv c (Call_GetResult d k q f opts r) = as_ret Ret_error (GetResult_c drv c d k q f opts r)"
| "invoke_c drv c (Call_GetCount d k q) = as_ret (case_prod Ret_count) (GetCount_c drv c d k q)"
| "invoke_c drv c (Call_Insert d k docs) = as_ret Ret_error (Insert_c drv c d k docs)"
| "invoke_c drv c (Call_Update d k sel u) = as_ret Ret_error (Update_c drv c d k sel u)"
| "invoke_c drv c (Call_UpdateAll d k sel u) = as_ret (case_prod Ret_map) (UpdateAll_c drv c d k sel u)"
| "invoke_c drv c (Call_Upsert d k sel u) = as_ret (case_prod Ret_map) (Upsert_c drv c d k sel u)"
| "invoke_c drv c (Call_Remove d k sel) = as_ret Ret_error (Remove_c drv c d k sel)"
| "invoke_c drv c (Call_RemoveAll d k sel) = as_ret (case_prod Ret_count) (RemoveAll_c drv c d k sel)"
| "invoke_c drv c (Call_FindAndModify d k sel u ups r) =
     as_ret (case_prod Ret_count) (FindAndModify_c drv c d k sel u ups r)"
| "invoke_c drv c (Call_FindAndRemove d k sel r) =
     as_ret (case_prod Ret_count) (FindAndRemove_c drv c d k sel r)"
| "invoke_c drv c (Call_GetPipeRow d k p r) = as_ret Ret_error (GetPipeRow_c drv c d k p r)"
| "invoke_c drv c (Call_GetPipeResult d k p r) = as_ret Ret_error (GetPipeResult_c drv c d k p r)"

fun invoke_g ::
  "driver \<Rightarrow> globals \<Rightarrow> Client_g option \<Rightarrow> facade_call \<Rightarrow> retval outcome \<times> globals \<times> event list" where
  "invoke_g drv g c (Call_GetRow d k q r) = as_ret Ret_error (GetRow_g drv g c d k q r)"
| "invoke_g drv g c (Call_GetResult d k q f opts r) = as_ret Ret_error (GetResult_g drv g c d k q f opts r)"
| "invoke_g drv g c (Call_GetCount d k q) = as_ret (case_prod Ret_count) (GetCount_g drv g c d k q)"
| "invoke_g drv g c (Call_Insert d k docs) = as_ret Ret_error (Insert_g drv g c d k docs)"
| "invoke_g drv g c (Call_Update d k sel u) = as_ret Ret_error (Update_g drv g c d k sel u)"
| "invoke_g drv g c (Call_UpdateAll d k sel u) = as_ret (case_prod Ret_map) (UpdateAll_g drv g c d k sel u)"
| "invoke_g drv g c (Call_Upsert d k sel u) = as_ret (case_prod Ret_map) (Upsert_g drv g c d k sel u)"
| "invoke_g drv g c (Call_Remove d k sel) = as_ret Ret_error (Remove_g drv g c d k sel)"
| "invoke_g drv g c (Call_RemoveAll d k sel) = as_ret (case_prod Ret_count) (RemoveAll_g drv g c d k sel)"
| "invoke_g drv g c (Call_FindAndModify d k sel u ups r) =
     as_ret (case_prod Ret_count) (FindAndModify_g drv g c d k sel u ups r)"
| "invoke_g drv g c (Call_FindAndRemove d k sel r) =
     as_ret (case_prod Ret_count) (FindAndRemove_g drv g c d k sel r)"
| "invoke_g drv g c (Call_GetPipeRow d k p r) = as_ret Ret_error (GetPipeRow_g drv g c d k p r)"
| "invoke_g drv g c (Call_GetPipeResult d k p r) = as_ret Ret_error (GetPipeResult_g drv g c d k p r)"

text \<open>
  Go's zero value of each return shape (a nil map), and the value next to it that
  an early return of this code gives (a map literal with no entries).
\<close>

fun zero_valued :: "retval \<Rightarrow> bool" where
  "zero_valued (Ret_error e) = True"
| "zero_valued (Ret_count n e) = (n = 0)"
| "zero_valued (Ret_map m e) = (m = MapNil)"

fun zero_or_empty :: "retval \<Rightarrow> bool" where
  "zero_or_empty (Ret_error e) = True"
| "zero_or_empty (Ret_count n e) = (n = 0)"
| "zero_or_empty (Ret_map m e) = (m = MapOf Map.empty)"

text \<open>The zero values of what a facade method returns: what a recovered panic leaves.\<close>

fun zero_return :: "facade_call \<Rightarrow> retval" where
  "zero_return (Call_GetCount d k q) = Ret_count 0 None"
| "zero_return (Call_RemoveAll d k sel) = Ret_count 0 None"
| "zero_return (Call_FindAndModify d k sel u ups r) = Ret_count 0 None"
| "zero_return (Call_FindAndRemove d k sel r) = Ret_count 0 None"
| "zero_return (Call_UpdateAll d k sel u) = Ret_map MapNil None"
| "zero_return (Call_Upsert d k sel u) = Ret_map MapNil None"
| "zero_return call = Ret_error None"

text \<open>The four methods whose deferred function recovers in the global-session variant.\<close>

fun recovers_g :: "facade_call \<Rightarrow> bool" where
  "recovers_g (Call_FindAndModify d k sel u ups r) = True"
| "recovers_g (Call_FindAndRemove d k sel r) = True"
| "recovers_g (Call_GetPipeRow d k p r) = True"
| "recovers_g (Call_GetPipeResult d k p r) = True"
| "recovers_g call = False"

section \<open>Identifiers and their hexadecimal text\<close>

text \<open>
  \<open>ObjectID\<close> is \<open>bson.ObjectId\<close>, a Go string read as bytes. \<open>Hex\<close>,
  \<open>IsObjectIdHex\<close> and \<open>ObjectIDHex\<close> each hand their argument to the function of
  the same name in \<open>bson\<close>, which in turn uses the standard hexadecimal codec.
\<close>

type_synonym byte = "8 word"

type_synonym ObjectID = "byte list"

text \<open>
  Modelled from the spec: the sixteen lowercase digits of the hexadecimal text
  (the table of \<open>hex.EncodeToString\<close>, not in the repository).
\<close>

definition hextable :: string where
  "hextable = ''0123456789abcdef''"

text \<open>
  Modelled from the spec: the standard hex encoding of a byte sequence
  (\<open>hex.EncodeToString\<close>, not in the repository), two lowercase digits for a byte,
  the high half first.
\<close>

fun EncodeToString :: "byte list \<Rightarrow> string" where
  "EncodeToString [] = []"
| "EncodeToString (v # src) =
     hextable ! unat (drop_bit 4 v) # hextable ! unat (v AND 15) # EncodeToString src"

text \<open>
  Modelled from the spec: the digits of standard hex decoding (\<open>hex.DecodeString\<close>,
  not in the repository): \<open>0\<close> to \<open>9\<close>, \<open>a\<close> to \<open>f\<close> and \<open>A\<close> to \<open>F\<close>, each
  with its value; \<open>None\<close> for any other character.
\<close>

definition fromHexChar :: "char \<Rightarrow> byte option" where
  "fromHexChar c =
     (let n = (of_char c :: nat)
      in if 48 \<le> n \<and> n \<le> 57 then Some (of_nat (n - 48))
         else if 97 \<le> n \<and> n \<le> 102 then Some (of_nat (n - 97 + 10))
         else if 65 \<le> n \<and> n \<le> 70 then Some (of_nat (n - 65 + 10))
         else None)"

text \<open>
  Modelled from the spec: standard hex decoding (\<open>hex.DecodeString\<close>, not in the
  repository). The text decodes when its length is even and every character is a
  digit, two digits to a byte; \<open>None\<close> is the error otherwise.
\<close>

fun DecodeString :: "string \<Rightarrow> byte list option" where
  "DecodeString [] = Some []"
| "DecodeString [p] = None"
| "DecodeString (p # q # src) =
     (case fromHexChar p of
        None \<Rightarrow> None
      | Some a \<Rightarrow>
          (case fromHexChar q of
             None \<Rightarrow> None
           | Some b \<Rightarrow>
               (case DecodeString src of
                  None \<Rightarrow> None
                | Some dst \<Rightarrow> Some ((push_bit 4 a OR b) # dst))))"

text \<open>
  Modelled from the spec: \<open>ToHex\<close>, the method \<open>Hex\<close> of \<open>bson.ObjectId\<close> (not in
  the repository): the hex encoding of the identifier's bytes.
\<close>

definition bson_Hex :: "ObjectID \<Rightarrow> string" where
  "bson_Hex oid = EncodeToString oid"

text \<open>
  Modelled from the spec: \<open>IsValidHex\<close>, \<open>bson.IsObjectIdHex\<close> (not in the
  repository): true iff the text decodes to exactly 12 bytes of hex.
\<close>

definition bson_IsObjectIdHex :: "string \<Rightarrow> bool" where
  "bson_IsObjectIdHex s = (case DecodeString s of None \<Rightarrow> False | Some d \<Rightarrow> length d = 12)"

text \<open>
  Modelled from the spec: \<open>InvalidFormat\<close>, the failure of \<open>FromHex\<close>. In
  \<open>bson.ObjectIdHex\<close> (not in the repository) it is a panic whose value is a
  message that names the text.
\<close>

definition InvalidFormat :: "string \<Rightarrow> panic" where
  "InvalidFormat s = Panic_value (VString (''invalid input to ObjectIdHex: '' @ s))"

text \<open>
  Modelled from the spec: \<open>FromHex\<close>, \<open>bson.ObjectIdHex\<close> (not in the repository):
  it fails with \<open>InvalidFormat\<close> when the text is not valid hex of the correct
  length, and gives the decoded bytes otherwise.
\<close>

definition bson_ObjectIdHex :: "string \<Rightarrow> ObjectID outcome" where
  "bson_ObjectIdHex s =
     (case DecodeString s of
        None \<Rightarrow> Panics (InvalidFormat s)
      | Some d \<Rightarrow> if length d = 12 then Returns d else Panics (InvalidFormat s))"

text \<open>The three functions of the package.\<close>

definition Hex :: "ObjectID \<Rightarrow> string" where
  "Hex oid = bson_Hex oid"

definition IsObjectIdHex :: "string \<Rightarrow> bool" where
  "IsObjectIdHex s = bson_IsObjectIdHex s"

definition ObjectIDHex :: "string \<Rightarrow> ObjectID outcome" where
  "ObjectIDHex s = bson_ObjectIdHex s"

section \<open>Drivers to run the code on\<close>

text \<open>
  A server that answers every call, one that fails every call with an error, and one
  whose calls panic. \<open>url.Parse\<close> rejects an address such as \<open>127.0.0.1:27017\<close>
  (its first path segment holds a colon) and then gives a nil URL.
\<close>

text \<open>
  What \<open>Query.Sort\<close> of the driver refuses: a field whose name is empty once an
  optional \<open>$kind:\<close> prefix and a leading \<open>+\<close> or \<open>-\<close> are taken off. The prefix
  is taken off when the first colon stands after the second character and before
  the last.
\<close>

definition strip_kind :: "string \<Rightarrow> string" where
  "strip_kind field =
     (case field of
        [] \<Rightarrow> []
      | x # rest \<Rightarrow>
          (let c = length (takeWhile (\<lambda>y. y \<noteq> CHR '':'') field)
           in if x = CHR ''$'' \<and> 1 < c \<and> c + 1 < length field then drop (c + 1) field
              else field))"

definition strip_sign :: "string \<Rightarrow> string" where
  "strip_sign field =
     (case field of
        [] \<Rightarrow> []
      | x # rest \<Rightarrow> if x = CHR ''+'' \<or> x = CHR ''-'' then rest else field)"

definition empty_field_name :: "string list \<Rightarrow> panic option" where
  "empty_field_name flds =
     (if list_ex (\<lambda>f. strip_sign (strip_kind f) = []) flds
      then Some (Panic_value (VString ''Sort: empty field name''))
      else None)"

definition some_info :: ChangeInfo where
  "some_info = \<lparr>Updated = 1, Removed = 2, Matched = 3, UpsertedId = VNil\<rparr>"

definition drv_ok :: driver where
  "drv_ok =
     \<lparr>url_Parse = (\<lambda>a. (Some \<lparr>Host = ''db.example:27017''\<rparr>, None)),
      mgo_Dial = (\<lambda>a. Returns (Some (Session 1), None)),
      Session_Ping = (\<lambda>s. Returns None),
      Sort_panic = empty_field_name,
      call_err = (\<lambda>c. Returns None),
      call_count = (\<lambda>c. Returns (5, None)),
      call_info = (\<lambda>c. Returns (Some some_info, None))\<rparr>"

definition drv_failing :: driver where
  "drv_failing =
     \<lparr>url_Parse = (\<lambda>a. (Some \<lparr>Host = ''db.example:27017''\<rparr>, None)),
      mgo_Dial = (\<lambda>a. Returns (None, Some (errorString ''no reachable servers''))),
      Session_Ping = (\<lambda>s. Returns (Some (errorString ''EOF''))),
      Sort_panic = empty_field_name,
      call_err = (\<lambda>c. Returns (Some (errorString ''EOF''))),
      call_count = (\<lambda>c. Returns (0, Some (errorString ''EOF''))),
      call_info = (\<lambda>c. Returns (None, Some (errorString ''EOF'')))\<rparr>"

definition drv_panicking :: driver where
  "drv_panicking =
     drv_ok
       \<lparr>call_err := (\<lambda>c. Panics (Panic_value (VString ''boom''))),
        call_count := (\<lambda>c. Panics (Panic_value (VString ''boom''))),
        call_info := (\<lambda>c. Panics (Panic_value (VString ''boom'')))\<rparr>"

definition drv_unparsed :: driver where
  "drv_unparsed =
     drv_failing
       \<lparr>url_Parse := (\<lambda>a. (None, Some (errorString ''first path segment in URL cannot contain colon'')))\<rparr>"

definition c_up :: Client where
  "c_up = \<lparr>host = ''db.example:27017'', session = Some (Session 1), connErr = None\<rparr>"

definition c_down :: Client where
  "c_down = \<lparr>host = [], session = None, connErr = Some (errorString ''host: db.example:27017 error: no reachable servers'')\<rparr>"

definition g_up :: globals where
  "g_up = \<lparr>connErr_g = None\<rparr>"

definition g_down :: globals where
  "g_down = \<lparr>connErr_g = Some (errorString ''no reachable servers'')\<rparr>"

definition h_up :: "Client_g option" where
  "h_up = Some \<lparr>session_g = Some (Session 1)\<rparr>"

section \<open>The hexadecimal codec\<close>

lemma fromHexChar_hextable: "n < 16 \<Longrightarrow> fromHexChar (hextable ! n) = Some (of_nat n)"
proof -
  assume "n < 16"
  then have "n = 0 \<or> n = 1 \<or> n = 2 \<or> n = 3 \<or> n = 4 \<or> n = 5 \<or> n = 6 \<or> n = 7 \<or> n = 8 \<or> n = 9
    \<or> n = 10 \<or> n = 11 \<or> n = 12 \<or> n = 13 \<or> n = 14 \<or> n = 15" by arith
  then show ?thesis
    by (auto simp: hextable_def fromHexChar_def)
qed

lemma fifteen_mask: "(15 :: byte) = mask 4"
  by (simp add: mask_eq_exp_minus_1)

lemma halves_join: "push_bit 4 (drop_bit 4 v) OR (v AND 15) = (v :: byte)"
  unfolding fifteen_mask by (rule bit_word_eqI) (auto simp: bit_simps)

lemma high_half_less: "unat (drop_bit 4 (v :: byte)) < 16"
proof -
  have "unat v < 256" using unsigned_less [of v, where ?'a = nat] by simp
  then show ?thesis by (simp add: unat_drop_bit_eq drop_bit_eq_div unat_div)
qed

lemma low_half_less: "unat ((v :: byte) AND 15) < 16"
proof -
  have "unat (v AND 15) \<le> unat (15 :: byte)"
    by (rule word_and_le1 [THEN word_le_nat_alt [THEN iffD1]])
  then show ?thesis by simp
qed

lemma Decode_Encode: "DecodeString (EncodeToString bs) = Some bs"
  by (induction bs) (simp_all add: fromHexChar_hextable high_half_less low_half_less halves_join)

lemma length_Encode: "length (EncodeToString bs) = 2 * length bs"
  by (induction bs) simp_all

lemma nth_hextable: "n < 16 \<Longrightarrow> hextable ! n \<in> set hextable"
  by (rule nth_mem) (simp add: hextable_def)

lemma Encode_lower: "set (EncodeToString bs) \<subseteq> set hextable"
  by (induction bs) (simp_all add: nth_hextable high_half_less low_half_less)

lemma digit_codes:
  "c \<in> set ''0123456789abcdefABCDEF'' \<longleftrightarrow>
     (of_char c :: nat) \<in>
       {48, 49, 50, 51, 52, 53, 54, 55, 56, 57, 97, 98, 99, 100, 101, 102, 65, 66, 67, 68, 69, 70}"
proof -
  have "c \<in> set ''0123456789abcdefABCDEF'' \<longleftrightarrow>
      (of_char c :: nat) \<in> of_char ` set ''0123456789abcdefABCDEF''"
    by (simp only: inj_image_mem_iff [OF inj_of_char])
  then show ?thesis by simp
qed

lemma fromHexChar_digit: "fromHexChar c \<noteq> None \<longleftrightarrow> c \<in> set ''0123456789abcdefABCDEF''"
proof -
  have "fromHexChar c \<noteq> None \<longleftrightarrow>
      (of_char c :: nat) \<in>
        {48, 49, 50, 51, 52, 53, 54, 55, 56, 57, 97, 98, 99, 100, 101, 102, 65, 66, 67, 68, 69, 70}"
    unfolding fromHexChar_def Let_def by (simp; arith)
  then show ?thesis by (simp only: digit_codes)
qed

lemma Decode_Some:
  "DecodeString s = Some d \<Longrightarrow> length s = 2 * length d \<and> set s \<subseteq> set ''0123456789abcdefABCDEF''"
proof (induction s arbitrary: d rule: DecodeString.induct)
  case 1
  then show ?case by simp
next
  case (2 p)
  then show ?case by simp
next
  case (3 p q src)
  from "3.prems" obtain a b dst where
    a: "fromHexChar p = Some a" and b: "fromHexChar q = Some b"
    and dst: "DecodeString src = Some dst" and d: "d = (push_bit 4 a OR b) # dst"
    by (auto split: option.splits)
  from "3.IH" [OF a b dst] have "length src = 2 * length dst"
    and "set src \<subseteq> set ''0123456789abcdefABCDEF''" by simp_all
  moreover have "p \<in> set ''0123456789abcdefABCDEF''" using a fromHexChar_digit [of p] by simp
  moreover have "q \<in> set ''0123456789abcdefABCDEF''" using b fromHexChar_digit [of q] by simp
  ultimately show ?case using d by simp
qed

lemma Decode_total:
  "even (length s) \<Longrightarrow> set s \<subseteq> set ''0123456789abcdefABCDEF'' \<Longrightarrow> \<exists>d. DecodeString s = Some d"
proof (induction s rule: DecodeString.induct)
  case 1
  then show ?case by simp
next
  case (2 p)
  then show ?case by simp
next
  case (3 p q src)
  have "fromHexChar p \<noteq> None" using "3.prems" fromHexChar_digit [of p] by simp
  then obtain a where a: "fromHexChar p = Some a" by auto
  have "fromHexChar q \<noteq> None" using "3.prems" fromHexChar_digit [of q] by simp
  then obtain b where b: "fromHexChar q = Some b" by auto
  have "\<exists>d. DecodeString src = Some d" using "3.IH" [OF a b] "3.prems" by simp
  then show ?case using a b by auto
qed

text \<open>Every text of 24 hexadecimal digits, in either case, is a valid identifier text.\<close>

lemma valid_text_decodes:
  assumes "length s = 24" and "set s \<subseteq> set ''0123456789abcdefABCDEF''"
  shows "IsObjectIdHex s"
proof -
  from assms obtain d where d: "DecodeString s = Some d"
    using Decode_total [of s] by auto
  from Decode_Some [OF d] assms have "length d = 12" by simp
  with d show ?thesis by (simp add: IsObjectIdHex_def bson_IsObjectIdHex_def)
qed

text \<open>
  C3. Parsing the hexadecimal text of a 12-byte identifier gives the identifier
  back; the text has 24 characters, all of them lowercase hexadecimal digits, and
  no other identifier has the same text.
\<close>

theorem hex_roundtrip:
  assumes "length oid = 12"
  shows "ObjectIDHex (Hex oid) = Returns oid \<and> length (Hex oid) = 24
     \<and> set (Hex oid) \<subseteq> set ''0123456789abcdef''
     \<and> (\<forall>oid'. Hex oid' = Hex oid \<longleftrightarrow> oid' = oid)"
proof -
  have inj: "\<forall>oid'. Hex oid' = Hex oid \<longleftrightarrow> oid' = oid"
  proof (intro allI iffI)
    fix oid' assume "Hex oid' = Hex oid"
    then have "DecodeString (EncodeToString oid') = DecodeString (EncodeToString oid)"
      by (simp add: Hex_def bson_Hex_def)
    then show "oid' = oid" by (simp add: Decode_Encode)
  qed simp
  have "set (Hex oid) \<subseteq> set ''0123456789abcdef''"
    using Encode_lower [of oid] by (simp only: Hex_def bson_Hex_def hextable_def)
  with assms inj show ?thesis
    by (simp add: ObjectIDHex_def bson_ObjectIdHex_def Hex_def bson_Hex_def Decode_Encode length_Encode)
qed

theorem hex_roundtrip_witness:
  "length [1, 2, 3, 4, 5, 6, 7, 8, 9, 10, 171, 255 :: byte] = 12
   \<and> Hex [1, 2, 3, 4, 5, 6, 7, 8, 9, 10, 171, 255] = ''0102030405060708090aabff''
   \<and> ObjectIDHex ''0102030405060708090aabff'' = Returns [1, 2, 3, 4, 5, 6, 7, 8, 9, 10, 171, 255]"
proof -
  have len: "length [1, 2, 3, 4, 5, 6, 7, 8, 9, 10, 171, 255 :: byte] = 12" by simp
  have enc: "Hex [1, 2, 3, 4, 5, 6, 7, 8, 9, 10, 171, 255] = ''0102030405060708090aabff''"
    by (simp add: Hex_def bson_Hex_def hextable_def)
  from hex_roundtrip [OF len] enc len show ?thesis by simp
qed

text \<open>
  C4. \<open>IsObjectIdHex\<close> is true exactly for the texts of length 24 made of
  hexadecimal digits only that \<open>ObjectIDHex\<close> parses. It is a total function to the
  booleans: it has no failing branch.
\<close>

theorem IsObjectIdHex_iff:
  "IsObjectIdHex s \<longleftrightarrow>
     length s = 24 \<and> set s \<subseteq> set ''0123456789abcdefABCDEF'' \<and> (\<exists>oid. ObjectIDHex s = Returns oid)"
proof
  assume "IsObjectIdHex s"
  then obtain d where d: "DecodeString s = Some d" and len: "length d = 12"
    by (auto simp: IsObjectIdHex_def bson_IsObjectIdHex_def split: option.splits)
  from Decode_Some [OF d] len d show
    "length s = 24 \<and> set s \<subseteq> set ''0123456789abcdefABCDEF'' \<and> (\<exists>oid. ObjectIDHex s = Returns oid)"
    by (simp add: ObjectIDHex_def bson_ObjectIdHex_def)
next
  assume "length s = 24 \<and> set s \<subseteq> set ''0123456789abcdefABCDEF'' \<and> (\<exists>oid. ObjectIDHex s = Returns oid)"
  then obtain oid where "ObjectIDHex s = Returns oid" by blast
  then show "IsObjectIdHex s"
    by (auto simp: IsObjectIdHex_def bson_IsObjectIdHex_def ObjectIDHex_def bson_ObjectIdHex_def
        split: option.splits if_splits)
qed

text \<open>
  C7. On a text that \<open>IsObjectIdHex\<close> rejects, \<open>ObjectIDHex\<close> returns no identifier:
  it fails with the invalid-format panic.
\<close>

theorem ObjectIDHex_invalid:
  assumes "\<not> IsObjectIdHex s"
  shows "ObjectIDHex s = Panics (InvalidFormat s) \<and> (\<forall>oid. ObjectIDHex s \<noteq> Returns oid)"
  using assms
  by (auto simp: IsObjectIdHex_def bson_IsObjectIdHex_def ObjectIDHex_def bson_ObjectIdHex_def
      split: option.splits)

theorem ObjectIDHex_invalid_witness:
  "\<not> IsObjectIdHex ''0102030405060708090aabfg''
   \<and> ObjectIDHex ''0102030405060708090aabfg'' = Panics (InvalidFormat ''0102030405060708090aabfg'')"
proof -
  have bad: "\<not> IsObjectIdHex ''0102030405060708090aabfg''"
    by (simp add: IsObjectIdHex_def bson_IsObjectIdHex_def fromHexChar_def)
  from ObjectIDHex_invalid [OF bad] bad show ?thesis by simp
qed

section \<open>The sticky error\<close>

lemmas facade_c_defs =
  GetRow_c_def GetResult_c_def GetCount_c_def Insert_c_def Update_c_def UpdateAll_c_def
  Upsert_c_def Remove_c_def RemoveAll_c_def FindAndModify_c_def FindAndRemove_c_def
  GetPipeRow_c_def GetPipeResult_c_def

lemmas facade_g_defs =
  GetRow_g_def GetResult_g_def GetCount_g_def Insert_g_def Update_g_def UpdateAll_g_def
  Upsert_g_def Remove_g_def RemoveAll_g_def FindAndModify_g_def FindAndRemove_g_def
  GetPipeRow_g_def GetPipeResult_g_def

text \<open>
  C1, as amended. On a handle whose sticky error is set (the handle's own in the
  per-client variant, the package's in the global-session variant), every facade
  method returns that error, does nothing to the driver and leaves the state as it
  was, sticky error included. What comes with the error is 0 for a count; for
  \<open>UpdateAll\<close> and \<open>Upsert\<close> it is an empty map that is not nil.
\<close>

theorem sticky_short_circuit:
  assumes "connErr c = Some e" and "connErr_g g = Some e'"
  shows "(\<exists>r. invoke_c drv c call = (Returns r, c, []) \<and> ret_error r = Some e \<and> zero_or_empty r)
       \<and> (\<exists>r. invoke_g drv g h call = (Returns r, g, []) \<and> ret_error r = Some e' \<and> zero_or_empty r)"
  using assms by (cases call) (simp_all add: as_ret_def facade_c_defs facade_g_defs)

theorem sticky_short_circuit_witness:
  "connErr c_down = Some (errorString ''host: db.example:27017 error: no reachable servers'')
   \<and> connErr_g g_down = Some (errorString ''no reachable servers'')
   \<and> invoke_c drv_ok c_down (Call_GetCount ''shop'' ''orders'' []) =
       (Returns (Ret_count 0 (connErr c_down)), c_down, [])
   \<and> invoke_g drv_ok g_down h_up (Call_Upsert ''shop'' ''orders'' [] []) =
       (Returns (Ret_map (MapOf Map.empty) (connErr_g g_down)), g_down, [])"
proof -
  have c: "connErr c_down = Some (errorString ''host: db.example:27017 error: no reachable servers'')"
    by (simp add: c_down_def)
  have g: "connErr_g g_down = Some (errorString ''no reachable servers'')"
    by (simp add: g_down_def)
  have 1: "invoke_c drv_ok c_down (Call_GetCount ''shop'' ''orders'' []) =
       (Returns (Ret_count 0 (connErr c_down)), c_down, [])"
    by (simp add: as_ret_def GetCount_c_def c_down_def)
  have 2: "invoke_g drv_ok g_down h_up (Call_Upsert ''shop'' ''orders'' [] []) =
       (Returns (Ret_map (MapOf Map.empty) (connErr_g g_down)), g_down, [])"
    by (simp add: as_ret_def Upsert_g_def g_down_def)
  from sticky_short_circuit [OF c g, of drv_ok "Call_GetCount ''shop'' ''orders'' []" h_up] c g 1 2
  show ?thesis by simp
qed

text \<open>
  C1 as stated fails for the methods that return a map: the map that comes with the
  sticky error is not the zero value of its type.
\<close>

theorem zero_valued_counterexample:
  "connErr c_down \<noteq> None
   \<and> invoke_c drv_ok c_down (Call_UpdateAll ''shop'' ''orders'' [] []) =
       (Returns (Ret_map (MapOf Map.empty) (connErr c_down)), c_down, [])
   \<and> \<not> zero_valued (Ret_map (MapOf Map.empty) (connErr c_down))"
  by (simp add: c_down_def as_ret_def UpdateAll_c_def)

section \<open>The two variants side by side\<close>

lemma map_recovered:
  "map_outcome f x = Returns r \<Longrightarrow> map_outcome f (recovered z x) = Returns r"
  by (cases x) simp_all

lemma map_recovered_count:
  "map_outcome (case_prod Ret_count) x = Panics p \<Longrightarrow>
     map_outcome (case_prod Ret_count) (recovered (0, None) x) = Returns (Ret_count 0 None)"
  by (cases x) simp_all

lemma map_recovered_error:
  "map_outcome Ret_error x = Panics p \<Longrightarrow>
     map_outcome Ret_error (recovered None x) = Returns (Ret_error None)"
  by (cases x) simp_all

text \<open>
  C2, as amended. From the same sticky error and the same session, against the same
  driver, a facade call does the same to the driver in both variants: nothing, a
  copy that is closed again (where \<open>Sort\<close> panics in \<open>GetResult\<close>), or one copy,
  one call and the close of the copy. Neither changes its state. Whatever the
  per-client variant returns, the global-session variant returns too. The nine
  methods that do not recover end the same way in both variants even when they
  panic, and so does every method that ends before the copy is made. In
  \<open>FindAndModify\<close>, \<open>FindAndRemove\<close>, \<open>GetPipeRow\<close> and \<open>GetPipeResult\<close>, a
  panic after the copy leaves the per-client variant as a panic and the
  global-session variant as a return of the zero values.
\<close>

theorem variants_agree:
  assumes "connErr_g g = connErr c" and "session_of h = session c"
  shows "snd (snd (invoke_g drv g h call)) = snd (snd (invoke_c drv c call))
       \<and> (snd (snd (invoke_c drv c call)) = []
            \<or> (\<exists>s. snd (snd (invoke_c drv c call)) = [ECopy s, EClose (Copy s)])
            \<or> (\<exists>s x. snd (snd (invoke_c drv c call)) = [ECopy s, ECall x, EClose (Copy s)]))
       \<and> fst (snd (invoke_g drv g h call)) = g \<and> fst (snd (invoke_c drv c call)) = c
       \<and> (\<forall>r. fst (invoke_c drv c call) = Returns r \<longrightarrow> fst (invoke_g drv g h call) = Returns r)
       \<and> (\<not> recovers_g call \<longrightarrow> fst (invoke_g drv g h call) = fst (invoke_c drv c call))
       \<and> (snd (snd (invoke_c drv c call)) = [] \<longrightarrow>
            fst (invoke_g drv g h call) = fst (invoke_c drv c call))
       \<and> (recovers_g call \<and> snd (snd (invoke_c drv c call)) \<noteq> [] \<longrightarrow>
            (\<forall>p. fst (invoke_c drv c call) = Panics p \<longrightarrow>
                 fst (invoke_g drv g h call) = Returns (zero_return call)))"
  using assms
  by (cases call)
    (auto simp: as_ret_def facade_c_defs facade_g_defs Let_def map_recovered
      map_recovered_count map_recovered_error split: option.splits outcome.splits)


theorem variants_agree_witness:
  "connErr_g g_up = connErr c_up \<and> session_of h_up = session c_up
   \<and> invoke_c drv_ok c_up (Call_FindAndModify ''shop'' ''orders'' [] [] True (VPtr 0)) =
       (Returns (Ret_count 1 None), c_up,
        [ECopy (Session 1),
         ECall (Query_Apply (Find (C (Copy (Session 1)) ''shop'' ''orders'') [])
           \<lparr>ch_Update = Some [], ch_Upsert = True, ch_Remove = False, ch_ReturnNew = True\<rparr> (VPtr 0)),
         EClose (Copy (Session 1))])
   \<and> fst (invoke_g drv_ok g_up h_up (Call_FindAndModify ''shop'' ''orders'' [] [] True (VPtr 0))) =
       Returns (Ret_count 1 None)
   \<and> snd (snd (invoke_g drv_ok g_up h_up (Call_FindAndModify ''shop'' ''orders'' [] [] True (VPtr 0)))) =
       snd (snd (invoke_c drv_ok c_up (Call_FindAndModify ''shop'' ''orders'' [] [] True (VPtr 0))))
   \<and> invoke_c drv_panicking c_up (Call_GetPipeResult ''shop'' ''orders'' [] (VPtr 0)) =
       (Panics (Panic_value (VString ''boom'')), c_up,
        [ECopy (Session 1), ECall (Pipe_All (C (Copy (Session 1)) ''shop'' ''orders'') [] (VPtr 0)),
         EClose (Copy (Session 1))])
   \<and> fst (invoke_g drv_panicking g_up h_up (Call_GetPipeResult ''shop'' ''orders'' [] (VPtr 0))) =
       Returns (Ret_error None)"
proof -
  have 1: "connErr_g g_up = connErr c_up" by (simp add: g_up_def c_up_def)
  have 2: "session_of h_up = session c_up" by (simp add: h_up_def c_up_def session_of_def)
  have 3: "invoke_c drv_ok c_up (Call_FindAndModify ''shop'' ''orders'' [] [] True (VPtr 0)) =
       (Returns (Ret_count 1 None), c_up,
        [ECopy (Session 1),
         ECall (Query_Apply (Find (C (Copy (Session 1)) ''shop'' ''orders'') [])
           \<lparr>ch_Update = Some [], ch_Upsert = True, ch_Remove = False, ch_ReturnNew = True\<rparr> (VPtr 0)),
         EClose (Copy (Session 1))])"
    by (simp add: as_ret_def FindAndModify_c_def c_up_def drv_ok_def some_info_def Let_def)
  have 4: "invoke_c drv_panicking c_up (Call_GetPipeResult ''shop'' ''orders'' [] (VPtr 0)) =
       (Panics (Panic_value (VString ''boom'')), c_up,
        [ECopy (Session 1), ECall (Pipe_All (C (Copy (Session 1)) ''shop'' ''orders'') [] (VPtr 0)),
         EClose (Copy (Session 1))])"
    by (simp add: as_ret_def GetPipeResult_c_def c_up_def drv_panicking_def drv_ok_def Let_def)
  from variants_agree [OF 1 2, of drv_panicking "Call_GetPipeResult ''shop'' ''orders'' [] (VPtr 0)"] 4
  have 5: "fst (invoke_g drv_panicking g_up h_up (Call_GetPipeResult ''shop'' ''orders'' [] (VPtr 0))) =
       Returns (Ret_error None)"
    by simp
  from variants_agree [OF 1 2, of drv_ok "Call_FindAndModify ''shop'' ''orders'' [] [] True (VPtr 0)"] 1 2 3 4 5
  show ?thesis by simp
qed


text \<open>
  C2 as stated fails where the driver panics inside \<open>FindAndModify\<close>: the
  global-session variant recovers and returns 0 and a nil error, the per-client
  variant lets the panic through.
\<close>

theorem variants_differ_counterexample:
  "connErr_g g_up = connErr c_up \<and> session_of h_up = session c_up
   \<and> fst (invoke_g drv_panicking g_up h_up (Call_FindAndModify ''shop'' ''orders'' [] [] True (VPtr 0))) =
       Returns (Ret_count 0 None)
   \<and> fst (invoke_c drv_panicking c_up (Call_FindAndModify ''shop'' ''orders'' [] [] True (VPtr 0))) =
       Panics (Panic_value (VString ''boom''))"
  by (simp add: as_ret_def FindAndModify_c_def FindAndModify_g_def c_up_def g_up_def h_up_def
      session_of_def drv_panicking_def drv_ok_def Let_def)

section \<open>Counts and errors\<close>

lemma count_result_zero:
  "count_result f r = Returns (n, e) \<Longrightarrow> n = 0 \<or> e = None"
  by (induction f r rule: count_result.induct) auto

lemma recovered_count_zero:
  "recovered (0, None) (count_result f r) = Returns (n, e) \<Longrightarrow> n = 0 \<or> e = None"
  by (cases "count_result f r") (auto dest: count_result_zero)

lemma count_result_zero':
  "Returns (n, e) = count_result f r \<Longrightarrow> n = 0 \<or> e = None"
  using count_result_zero [of f r n e] by simp

lemma recovered_count_zero':
  "Returns (n, e) = recovered (0, None) (count_result f r) \<Longrightarrow> n = 0 \<or> e = None"
  using recovered_count_zero [of f r n e] by simp

text \<open>
  C10. Whenever \<open>RemoveAll\<close>, \<open>FindAndModify\<close> or \<open>FindAndRemove\<close>, of either
  variant, returns an error that is not nil, the count next to it is 0; a count
  other than 0 comes with a nil error only.
\<close>

theorem count_is_zero_with_error:
  assumes "r \<in> {fst (RemoveAll_c drv c d k sel), fst (FindAndModify_c drv c d k sel u ups t),
                 fst (FindAndRemove_c drv c d k sel t), fst (RemoveAll_g drv g h d k sel),
                 fst (FindAndModify_g drv g h d k sel u ups t), fst (FindAndRemove_g drv g h d k sel t)}"
    and "r = Returns (n, e)"
  shows "(e \<noteq> None \<longrightarrow> n = 0) \<and> (n \<noteq> 0 \<longrightarrow> e = None)"
proof -
  have "n = 0 \<or> e = None"
    using assms
    by (auto simp: RemoveAll_c_def FindAndModify_c_def FindAndRemove_c_def RemoveAll_g_def
        FindAndModify_g_def FindAndRemove_g_def Let_def
        split: option.splits dest: count_result_zero' recovered_count_zero')
  then show ?thesis by auto
qed

theorem count_is_zero_with_error_witness:
  "fst (RemoveAll_c drv_failing c_up ''shop'' ''orders'' []) = Returns (0, Some (errorString ''EOF''))
   \<and> fst (FindAndRemove_g drv_ok g_up h_up ''shop'' ''orders'' [] (VPtr 0)) = Returns (2, None)"
proof -
  have 1: "fst (RemoveAll_c drv_failing c_up ''shop'' ''orders'' []) = Returns (0, Some (errorString ''EOF''))"
    by (simp add: RemoveAll_c_def c_up_def drv_failing_def Let_def)
  have 2: "fst (FindAndRemove_g drv_ok g_up h_up ''shop'' ''orders'' [] (VPtr 0)) = Returns (2, None)"
    by (simp add: FindAndRemove_g_def g_up_def h_up_def session_of_def drv_ok_def some_info_def Let_def)
  from count_is_zero_with_error [of "fst (RemoveAll_c drv_failing c_up ''shop'' ''orders'' [])"
      drv_failing c_up "''shop''" "''orders''" "[]" _ _ _ _ _ 0 "Some (errorString ''EOF'')"] 1 2
  show ?thesis by simp
qed

section \<open>Options of GetResult\<close>

lemma apply_Sort_eq:
  "apply_Sort drv options q =
     (case map_of options ''Sort'' of
        Some (VSort fs) \<Rightarrow>
          (case Sort_panic drv fs of Some p \<Rightarrow> Panics p | None \<Rightarrow> Returns (q\<lparr>q_sort := Some fs\<rparr>))
      | _ \<Rightarrow> Returns q)"
proof (cases "map_of options ''Sort''")
  case None
  then show ?thesis by (simp add: apply_Sort_def index_def)
next
  case (Some v)
  then show ?thesis by (cases v) (simp_all add: apply_Sort_def index_def Sort_def)
qed

lemma apply_Limit_frame:
  "q_sort (apply_Limit options q) = q_sort q \<and> q_skip (apply_Limit options q) = q_skip q
   \<and> q_coll (apply_Limit options q) = q_coll q \<and> q_query (apply_Limit options q) = q_query q
   \<and> q_fields (apply_Limit options q) = q_fields q"
  by (cases "index options ''Limit''") (simp_all add: apply_Limit_def Limit_def)

lemma apply_Skip_frame:
  "q_sort (apply_Skip options q) = q_sort q \<and> q_limit (apply_Skip options q) = q_limit q
   \<and> q_coll (apply_Skip options q) = q_coll q \<and> q_query (apply_Skip options q) = q_query q
   \<and> q_fields (apply_Skip options q) = q_fields q"
  by (cases "index options ''Skip''") (simp_all add: apply_Skip_def Skip_def)

lemma index_eq_iff: "v \<noteq> VNil \<Longrightarrow> index m k = v \<longleftrightarrow> map_of m k = Some v"
  by (auto simp: index_def split: option.splits)

lemma apply_Limit_iff:
  assumes "q_limit q = None"
  shows "q_limit (apply_Limit options q) = Some n \<longleftrightarrow> map_of options ''Limit'' = Some (VInt n)"
proof -
  have "q_limit (apply_Limit options q) = Some n \<longleftrightarrow> index options ''Limit'' = VInt n"
    using assms by (cases "index options ''Limit''") (simp_all add: apply_Limit_def Limit_def)
  then show ?thesis by (simp add: index_eq_iff)
qed

lemma apply_Skip_iff:
  assumes "q_skip q = None"
  shows "q_skip (apply_Skip options q) = Some n \<longleftrightarrow> map_of options ''Skip'' = Some (VInt n)"
proof -
  have "q_skip (apply_Skip options q) = Some n \<longleftrightarrow> index options ''Skip'' = VInt n"
    using assms by (cases "index options ''Skip''") (simp_all add: apply_Skip_def Skip_def)
  then show ?thesis by (simp add: index_eq_iff)
qed

text \<open>Where \<open>Sort\<close> is not asked for or takes its fields, the query goes on to be built.\<close>

lemma apply_Sort_accepted:
  assumes "\<forall>fs. map_of options ''Sort'' = Some (VSort fs) \<longrightarrow> Sort_panic drv fs = None"
    and "q_sort q0 = None"
  shows "\<exists>q1. apply_Sort drv options q0 = Returns q1
       \<and> (\<forall>fs. q_sort q1 = Some fs \<longleftrightarrow> map_of options ''Sort'' = Some (VSort fs))
       \<and> q_limit q1 = q_limit q0 \<and> q_skip q1 = q_skip q0 \<and> q_coll q1 = q_coll q0
       \<and> q_query q1 = q_query q0 \<and> q_fields q1 = q_fields q0"
proof (cases "map_of options ''Sort''")
  case None
  with assms(2) show ?thesis by (simp add: apply_Sort_eq)
next
  case (Some v)
  with assms show ?thesis by (cases v) (simp_all add: apply_Sort_eq)
qed

lemma apply_Sort_refused:
  assumes "map_of options ''Sort'' = Some (VSort fs)" and "Sort_panic drv fs = Some p"
  shows "apply_Sort drv options q0 = Panics p"
  using assms by (simp add: apply_Sort_eq)

lemma built_query:
  assumes "q_limit q1 = None" and "q_skip q1 = None"
    and "q = apply_Skip options (apply_Limit options q1)"
  shows "q_coll q = q_coll q1 \<and> q_query q = q_query q1 \<and> q_fields q = q_fields q1
     \<and> q_sort q = q_sort q1
     \<and> (\<forall>n. q_limit q = Some n \<longleftrightarrow> map_of options ''Limit'' = Some (VInt n))
     \<and> (\<forall>n. q_skip q = Some n \<longleftrightarrow> map_of options ''Skip'' = Some (VInt n))"
proof -
  have 2: "q_skip (apply_Limit options q1) = None"
    using assms(2) by (simp add: apply_Limit_frame)
  show ?thesis
    unfolding assms(3)
    using apply_Limit_iff [OF assms(1), of options] apply_Skip_iff [OF 2]
    by (simp add: apply_Limit_frame apply_Skip_frame)
qed

text \<open>
  C8, as amended. Where the options hold a value of type \<open>Sort\<close> that the driver's
  \<open>Sort\<close> refuses, \<open>GetResult\<close>, in either variant, closes the copy and panics
  with the driver's panic: no query is sent, and \<open>Limit\<close> and \<open>Skip\<close> are not
  applied. Everywhere else it sends one query: \<open>Sort\<close> is applied to it exactly when
  the options hold a value of type \<open>Sort\<close> under that key, \<open>Limit\<close> and \<open>Skip\<close>
  exactly when they hold an \<open>int\<close>; a key that is absent or holds a value of
  another type changes nothing, and what the method returns is what the driver
  answers to that query: the options add no error.
\<close>

theorem GetResult_options:
  assumes "connErr c = None" and "session c = Some s"
    and "connErr_g g = None" and "session_of h = Some s"
  shows "(\<forall>fs p. map_of options ''Sort'' = Some (VSort fs) \<and> Sort_panic drv fs = Some p \<longrightarrow>
            GetResult_c drv c d k query flds options result =
              (Panics p, c, [ECopy s, EClose (Copy s)])
          \<and> GetResult_g drv g h d k query flds options result =
              (Panics p, g, [ECopy s, EClose (Copy s)]))
       \<and> ((\<forall>fs. map_of options ''Sort'' = Some (VSort fs) \<longrightarrow> Sort_panic drv fs = None) \<longrightarrow>
            (\<exists>q. GetResult_c drv c d k query flds options result =
                   (call_err drv (Query_All q result), c,
                    [ECopy s, ECall (Query_All q result), EClose (Copy s)])
               \<and> GetResult_g drv g h d k query flds options result =
                   (call_err drv (Query_All q result), g,
                    [ECopy s, ECall (Query_All q result), EClose (Copy s)])
               \<and> q_coll q = C (Copy s) d k \<and> q_query q = query \<and> q_fields q = Some flds
               \<and> (\<forall>fs. q_sort q = Some fs \<longleftrightarrow> map_of options ''Sort'' = Some (VSort fs))
               \<and> (\<forall>n. q_limit q = Some n \<longleftrightarrow> map_of options ''Limit'' = Some (VInt n))
               \<and> (\<forall>n. q_skip q = Some n \<longleftrightarrow> map_of options ''Skip'' = Some (VInt n))))"
proof (intro conjI allI impI)
  fix fs p
  assume "map_of options ''Sort'' = Some (VSort fs) \<and> Sort_panic drv fs = Some p"
  then have r: "apply_Sort drv options (Select (Find (C (Copy s) d k) query) flds) = Panics p"
    by (simp add: apply_Sort_refused)
  from r assms show "GetResult_c drv c d k query flds options result =
      (Panics p, c, [ECopy s, EClose (Copy s)])"
    by (simp add: GetResult_c_def Let_def)
  from r assms show "GetResult_g drv g h d k query flds options result =
      (Panics p, g, [ECopy s, EClose (Copy s)])"
    by (simp add: GetResult_g_def Let_def)
next
  let ?q0 = "Select (Find (C (Copy s) d k) query) flds"
  assume ok: "\<forall>fs. map_of options ''Sort'' = Some (VSort fs) \<longrightarrow> Sort_panic drv fs = None"
  have 0: "q_sort ?q0 = None" "q_limit ?q0 = None" "q_skip ?q0 = None"
    "q_coll ?q0 = C (Copy s) d k" "q_query ?q0 = query" "q_fields ?q0 = Some flds"
    by (simp_all add: Select_def Find_def)
  from apply_Sort_accepted [OF ok 0(1)] obtain q1 where
    q1: "apply_Sort drv options ?q0 = Returns q1"
    and srt: "\<forall>fs. q_sort q1 = Some fs \<longleftrightarrow> map_of options ''Sort'' = Some (VSort fs)"
    and fr: "q_limit q1 = q_limit ?q0" "q_skip q1 = q_skip ?q0" "q_coll q1 = q_coll ?q0"
      "q_query q1 = q_query ?q0" "q_fields q1 = q_fields ?q0"
    by blast
  let ?q = "apply_Skip options (apply_Limit options q1)"
  have b: "q_coll ?q = q_coll q1 \<and> q_query ?q = q_query q1 \<and> q_fields ?q = q_fields q1
     \<and> q_sort ?q = q_sort q1
     \<and> (\<forall>n. q_limit ?q = Some n \<longleftrightarrow> map_of options ''Limit'' = Some (VInt n))
     \<and> (\<forall>n. q_skip ?q = Some n \<longleftrightarrow> map_of options ''Skip'' = Some (VInt n))"
    using built_query [of q1 ?q options] fr 0 by simp
  have c: "GetResult_c drv c d k query flds options result =
      (call_err drv (Query_All ?q result), c, [ECopy s, ECall (Query_All ?q result), EClose (Copy s)])"
    using q1 assms by (simp add: GetResult_c_def Let_def)
  have g: "GetResult_g drv g h d k query flds options result =
      (call_err drv (Query_All ?q result), g, [ECopy s, ECall (Query_All ?q result), EClose (Copy s)])"
    using q1 assms by (simp add: GetResult_g_def Let_def)
  show "\<exists>q. GetResult_c drv c d k query flds options result =
                   (call_err drv (Query_All q result), c,
                    [ECopy s, ECall (Query_All q result), EClose (Copy s)])
               \<and> GetResult_g drv g h d k query flds options result =
                   (call_err drv (Query_All q result), g,
                    [ECopy s, ECall (Query_All q result), EClose (Copy s)])
               \<and> q_coll q = C (Copy s) d k \<and> q_query q = query \<and> q_fields q = Some flds
               \<and> (\<forall>fs. q_sort q = Some fs \<longleftrightarrow> map_of options ''Sort'' = Some (VSort fs))
               \<and> (\<forall>n. q_limit q = Some n \<longleftrightarrow> map_of options ''Limit'' = Some (VInt n))
               \<and> (\<forall>n. q_skip q = Some n \<longleftrightarrow> map_of options ''Skip'' = Some (VInt n))"
    using b c g srt fr 0 by (intro exI [of _ ?q]) simp
qed


theorem GetResult_options_witness:
  "connErr c_up = None \<and> session c_up = Some (Session 1)
   \<and> connErr_g g_up = None \<and> session_of h_up = Some (Session 1)
   \<and> Sort_panic drv_ok [''-age''] = None
   \<and> GetResult_c drv_ok c_up ''shop'' ''people'' [] []
        [(''Sort'', VSort [''-age'']), (''Limit'', VInt 2), (''Skip'', VString ''1'')] (VPtr 0) =
       (Returns None, c_up,
        [ECopy (Session 1),
         ECall (Query_All
           \<lparr>q_coll = C (Copy (Session 1)) ''shop'' ''people'', q_query = [], q_fields = Some [],
              q_sort = Some [''-age''], q_limit = Some 2, q_skip = None\<rparr> (VPtr 0)),
         EClose (Copy (Session 1))])
   \<and> Sort_panic drv_ok [''-''] = Some (Panic_value (VString ''Sort: empty field name''))
   \<and> GetResult_g drv_ok g_up h_up ''shop'' ''people'' [] [] [(''Sort'', VSort [''-''])] (VPtr 0) =
       (Panics (Panic_value (VString ''Sort: empty field name'')), g_up,
        [ECopy (Session 1), EClose (Copy (Session 1))])"
proof -
  have 1: "connErr c_up = None" "session c_up = Some (Session 1)"
    by (simp_all add: c_up_def)
  have 2: "connErr_g g_up = None" "session_of h_up = Some (Session 1)"
    by (simp_all add: g_up_def h_up_def session_of_def)
  have 3: "Sort_panic drv_ok [''-age''] = None"
    "Sort_panic drv_ok [''-''] = Some (Panic_value (VString ''Sort: empty field name''))"
    by (simp_all add: drv_ok_def empty_field_name_def strip_kind_def strip_sign_def)
  have 4: "GetResult_c drv_ok c_up ''shop'' ''people'' [] []
        [(''Sort'', VSort [''-age'']), (''Limit'', VInt 2), (''Skip'', VString ''1'')] (VPtr 0) =
       (Returns None, c_up,
        [ECopy (Session 1),
         ECall (Query_All
           \<lparr>q_coll = C (Copy (Session 1)) ''shop'' ''people'', q_query = [], q_fields = Some [],
              q_sort = Some [''-age''], q_limit = Some 2, q_skip = None\<rparr> (VPtr 0)),
         EClose (Copy (Session 1))])"
    using 3(1)
    by (simp add: GetResult_c_def c_up_def Let_def apply_Sort_def apply_Limit_def
        apply_Skip_def index_def Select_def Find_def Sort_def Limit_def Skip_def)
      (simp add: drv_ok_def)
  from GetResult_options [OF 1 2, of "[(''Sort'', VSort [''-''])]" drv_ok "''shop''" "''people''"
      "[]" "[]" "VPtr 0"] 3(2)
  have 5: "GetResult_g drv_ok g_up h_up ''shop'' ''people'' [] [] [(''Sort'', VSort [''-''])] (VPtr 0) =
       (Panics (Panic_value (VString ''Sort: empty field name'')), g_up,
        [ECopy (Session 1), EClose (Copy (Session 1))])"
    by simp
  from 1 2 3 4 5 show ?thesis by simp
qed

text \<open>
  C8 as stated fails where the sort field is empty: \<open>Limit\<close> is in the options
  with an \<open>int\<close>, and \<open>GetResult\<close> panics in \<open>find.Sort\<close> before it applies it;
  no query is sent.
\<close>

theorem Limit_not_applied_counterexample:
  "map_of [(''Sort'', VSort [[]]), (''Limit'', VInt 2)] ''Limit'' = Some (VInt 2)
   \<and> GetResult_c drv_ok c_up ''shop'' ''people'' [] []
        [(''Sort'', VSort [[]]), (''Limit'', VInt 2)] (VPtr 0) =
       (Panics (Panic_value (VString ''Sort: empty field name'')), c_up,
        [ECopy (Session 1), EClose (Copy (Session 1))])"
  by (simp add: GetResult_c_def c_up_def Let_def apply_Sort_def index_def Sort_def drv_ok_def
      empty_field_name_def strip_kind_def strip_sign_def)

section \<open>Maps of UpdateAll and Upsert\<close>

lemma info_map_keys:
  "\<exists>kv. info_map i = MapOf kv \<and> dom kv = {''Matched'', ''Updated'', ''UpsertedId''}"
  by (auto simp: info_map_def)

lemma info_map_not_nil: "info_map i \<noteq> MapNil"
  by (simp add: info_map_def)

lemma info_result_cases:
  assumes "info_result r = Returns (m, e)"
  shows "(m = MapNil \<longleftrightarrow> (\<exists>info err. r = Returns (info, Some err)))
       \<and> (e = None \<longrightarrow> (\<exists>kv. m = MapOf kv \<and> dom kv = {''Matched'', ''Updated'', ''UpsertedId''}))"
  using assms
  by (induction r rule: info_result.induct) (use info_map_keys info_map_not_nil in auto)

text \<open>
  C9. When \<open>UpdateAll\<close> or \<open>Upsert\<close>, of either variant, returns, the map is nil
  exactly when the driver was called and gave an error; with a sticky error the map
  is empty and not nil, and no call is made; with a nil error the map is not nil
  and its keys are \<open>Matched\<close>, \<open>Updated\<close> and \<open>UpsertedId\<close>.
\<close>

theorem update_map_nil_iff:
  assumes "(out, evs, sticky) \<in>
      {(fst (UpdateAll_c drv c d k sel u), snd (snd (UpdateAll_c drv c d k sel u)), connErr c),
       (fst (Upsert_c drv c d k sel u), snd (snd (Upsert_c drv c d k sel u)), connErr c),
       (fst (UpdateAll_g drv g h d k sel u), snd (snd (UpdateAll_g drv g h d k sel u)), connErr_g g),
       (fst (Upsert_g drv g h d k sel u), snd (snd (Upsert_g drv g h d k sel u)), connErr_g g)}"
    and "out = Returns (m, e)"
  shows "(m = MapNil \<longleftrightarrow>
           (\<exists>s x info err. evs = [ECopy s, ECall x, EClose (Copy s)]
               \<and> call_info drv x = Returns (info, Some err)))
       \<and> (sticky \<noteq> None \<longrightarrow> m = MapOf Map.empty \<and> e = sticky \<and> evs = [])
       \<and> (e = None \<longrightarrow> (\<exists>kv. m = MapOf kv \<and> dom kv = {''Matched'', ''Updated'', ''UpsertedId''}))"
proof -
  consider (short) "sticky \<noteq> None" "m = MapOf Map.empty" "e = sticky" "evs = []"
    | (called) s x where "sticky = None" "evs = [ECopy s, ECall x, EClose (Copy s)]"
        "info_result (call_info drv x) = Returns (m, e)"
    using assms
    by (auto simp: UpdateAll_c_def Upsert_c_def UpdateAll_g_def Upsert_g_def Let_def
        split: option.splits)
  then show ?thesis
  proof cases
    case short
    then show ?thesis by auto
  next
    case called
    from info_result_cases [OF called(3)] called(1,2) show ?thesis by auto
  qed
qed


theorem update_map_nil_iff_witness:
  "fst (UpdateAll_c drv_failing c_up ''shop'' ''orders'' [] []) =
     Returns (MapNil, Some (errorString ''EOF''))
   \<and> fst (Upsert_c drv_ok c_up ''shop'' ''orders'' [] []) =
     Returns (MapOf [''Matched'' \<mapsto> VInt 3, ''Updated'' \<mapsto> VInt 1, ''UpsertedId'' \<mapsto> VNil], None)
   \<and> UpdateAll_g drv_ok g_down h_up ''shop'' ''orders'' [] [] =
     (Returns (MapOf Map.empty, connErr_g g_down), g_down, [])"
proof -
  have 1: "fst (UpdateAll_c drv_failing c_up ''shop'' ''orders'' [] []) =
     Returns (MapNil, Some (errorString ''EOF''))"
    by (simp add: UpdateAll_c_def c_up_def drv_failing_def Let_def)
  have 2: "fst (Upsert_c drv_ok c_up ''shop'' ''orders'' [] []) =
     Returns (MapOf [''Matched'' \<mapsto> VInt 3, ''Updated'' \<mapsto> VInt 1, ''UpsertedId'' \<mapsto> VNil], None)"
    by (simp add: Upsert_c_def c_up_def drv_ok_def some_info_def info_map_def Let_def)
  have 3: "UpdateAll_g drv_ok g_down h_up ''shop'' ''orders'' [] [] =
     (Returns (MapOf Map.empty, connErr_g g_down), g_down, [])"
    by (simp add: UpdateAll_g_def g_down_def)
  from update_map_nil_iff [of "fst (UpdateAll_c drv_failing c_up ''shop'' ''orders'' [] [])"
      "snd (snd (UpdateAll_c drv_failing c_up ''shop'' ''orders'' [] []))" "connErr c_up"
      drv_failing c_up "''shop''" "''orders''" "[]" "[]" _ _ MapNil "Some (errorString ''EOF'')"]
    1 2 3
  show ?thesis by simp
qed

section \<open>Ping\<close>

text \<open>
  C6, as amended. \<open>Ping\<close> of the per-client variant returns the sticky error at
  once when it is set. Otherwise it copies the session, pings the server through
  the copy and closes the copy; a ping that fails sets the sticky error to a message
  with the handle's host and the driver's message, and what \<open>Ping\<close> returns is the
  sticky error as it then stands. \<open>Ping\<close> of the global-session variant returns
  the sticky error of the package and does nothing else.
\<close>

theorem Ping_contract:
  "(connErr c = Some e \<longrightarrow> Ping_c drv c = (Returns (Some e), c, []))
   \<and> (connErr c = None \<and> session c = Some s \<longrightarrow>
        (\<exists>c'. snd (Ping_c drv c) = (c', [ECopy s, EPing (Copy s), EClose (Copy s)])
           \<and> (Session_Ping drv (Copy s) = Returns None \<longrightarrow>
                c' = c \<and> fst (Ping_c drv c) = Returns None)
           \<and> (\<forall>err. Session_Ping drv (Copy s) = Returns (Some err) \<longrightarrow>
                c' = c\<lparr>connErr := Some (errorString (''host: '' @ host c @ '' error: '' @ Error err))\<rparr>
                \<and> fst (Ping_c drv c) = Returns (connErr c'))))
   \<and> Ping_g g = (Returns (connErr_g g), g, [])"
  by (auto simp: Ping_c_def Ping_g_def Let_def Errorf_host_def split: outcome.splits option.splits)

theorem Ping_contract_witness:
  "connErr c_down = Some (errorString ''host: db.example:27017 error: no reachable servers'')
   \<and> Ping_c drv_ok c_down =
       (Returns (Some (errorString ''host: db.example:27017 error: no reachable servers'')), c_down, [])
   \<and> connErr c_up = None \<and> session c_up = Some (Session 1)
   \<and> Session_Ping drv_failing (Copy (Session 1)) = Returns (Some (errorString ''EOF''))
   \<and> Ping_c drv_failing c_up =
       (Returns (Some (errorString ''host: db.example:27017 error: EOF'')),
        c_up\<lparr>connErr := Some (errorString ''host: db.example:27017 error: EOF'')\<rparr>,
        [ECopy (Session 1), EPing (Copy (Session 1)), EClose (Copy (Session 1))])"
proof -
  have 1: "connErr c_down = Some (errorString ''host: db.example:27017 error: no reachable servers'')"
    by (simp add: c_down_def)
  have 2: "connErr c_up = None \<and> session c_up = Some (Session 1)"
    by (simp add: c_up_def)
  have 3: "Session_Ping drv_failing (Copy (Session 1)) = Returns (Some (errorString ''EOF''))"
    by (simp add: drv_failing_def)
  have 4: "Ping_c drv_failing c_up =
       (Returns (Some (errorString ''host: db.example:27017 error: EOF'')),
        c_up\<lparr>connErr := Some (errorString ''host: db.example:27017 error: EOF'')\<rparr>,
        [ECopy (Session 1), EPing (Copy (Session 1)), EClose (Copy (Session 1))])"
    by (simp add: Ping_c_def c_up_def drv_failing_def Let_def Errorf_host_def)
  from Ping_contract [of c_down "errorString ''host: db.example:27017 error: no reachable servers''"
      drv_ok "Session 1" g_up] 1
  have 5: "Ping_c drv_ok c_down =
       (Returns (Some (errorString ''host: db.example:27017 error: no reachable servers'')), c_down, [])"
    by blast
  from 1 2 3 4 5 show ?thesis by simp
qed

text \<open>
  C6 as stated fails for \<open>Ping\<close> of the global-session variant: with no sticky
  error and a server that would fail the check, it copies nothing, checks nothing
  and returns nil.
\<close>

theorem Ping_global_counterexample:
  "connErr_g g_up = None
   \<and> Session_Ping drv_failing (Copy (Session 1)) = Returns (Some (errorString ''EOF''))
   \<and> Ping_g g_up = (Returns None, g_up, [])"
  by (simp add: Ping_g_def g_up_def drv_failing_def)

section \<open>Conn\<close>

text \<open>
  What \<open>Conn\<close> does when the dial fails, and the timeout it sets when the dial
  succeeds. The per-client variant needs the address to have parsed as a URL.
\<close>

lemma Conn_c_dial_fails:
  assumes "fst (url_Parse drv a) = Some u" and "mgo_Dial drv a = Returns (sess, Some e)"
  shows "Conn_c drv a =
     (Returns \<lparr>host = [], session = None,
               connErr = Some (errorString (''host: '' @ Host u @ '' error: '' @ Error e))\<rparr>,
      [EDial a])"
  using assms by (simp add: Conn_c_def Errorf_host_def)

lemma Conn_g_dial_fails:
  assumes "mgo_Dial drv a = Returns (sess, Some e)"
  shows "Conn_g drv g a = (Returns None, g\<lparr>connErr_g := Some e\<rparr>, [EDial a])"
  using assms by (simp add: Conn_g_def recover_Conn_def)

lemma Conn_sets_timeout:
  assumes "mgo_Dial drv a = Returns (Some s, None)"
  shows "snd (Conn_c drv a) = [EDial a, ESetSocketTimeout s 86400000000000]
       \<and> snd (snd (Conn_g drv g a)) = [EDial a, ESetSocketTimeout s 86400000000000]"
  using assms by (simp add: Conn_c_def Conn_g_def Hour_def Let_def split: option.splits)

lemma Conn_c_parse_fails:
  assumes "fst (url_Parse drv a) = None" and "mgo_Dial drv a = Returns r"
  shows "fst (Conn_c drv a) = Panics nil_dereference"
  using assms by (cases r) (simp add: Conn_c_def Let_def split: option.splits)

text \<open>
  C5. \<open>Conn\<close> of the per-client variant, on an address that \<open>url.Parse\<close> rejects
  and a dial that fails: it does not return a handle, it panics on \<open>u.Host\<close>.
\<close>

theorem Conn_c_panics_unparsed:
  "Conn_c drv_unparsed ''127.0.0.1:27017'' =
     (Panics (Panic_error (errorString ''runtime error: invalid memory address or nil pointer dereference'')),
      [EDial ''127.0.0.1:27017''])"
  by (simp add: Conn_c_def drv_unparsed_def drv_failing_def nil_dereference_def)

end
